theory Spec2Isabelle
  imports Complex_Main
begin

section \<open>Double-precision values\<close>

text \<open>
  The sources compare, negate and store C++ \<^verbatim>\<open>double\<close> values. A double is either
  not-a-number, one of the two infinities, or a finite number. Finite values are embedded
  in the reals: comparison and negation of doubles are exact operations, so they agree
  with the same operations on the reals, and every statement proved for all reals holds
  for the representable ones. Every comparison with not-a-number is false, except
  \<^verbatim>\<open>!=\<close>, which is true. Signed zeros are identified (they compare equal in C++).
\<close>

datatype double = NaN | NegInf | Finite real | PosInf

text \<open>\<^verbatim>\<open>a < b\<close>\<close>

fun dlt :: "double \<Rightarrow> double \<Rightarrow> bool" where
  "dlt NaN b = False"
| "dlt a NaN = False"
| "dlt NegInf NegInf = False"
| "dlt NegInf b = True"
| "dlt (Finite a) NegInf = False"
| "dlt (Finite a) (Finite b) = (a < b)"
| "dlt (Finite a) PosInf = True"
| "dlt PosInf b = False"

text \<open>\<^verbatim>\<open>a > b\<close>\<close>

definition dgt :: "double \<Rightarrow> double \<Rightarrow> bool" where
  "dgt a b = dlt b a"

text \<open>\<^verbatim>\<open>a == b\<close> and \<^verbatim>\<open>a != b\<close>\<close>

definition deq :: "double \<Rightarrow> double \<Rightarrow> bool" where
  "deq a b = (a \<noteq> NaN \<and> b \<noteq> NaN \<and> a = b)"

definition dne :: "double \<Rightarrow> double \<Rightarrow> bool" where
  "dne a b = (\<not> deq a b)"

text \<open>\<^verbatim>\<open>a <= b\<close> and \<^verbatim>\<open>a >= b\<close>\<close>

definition dle :: "double \<Rightarrow> double \<Rightarrow> bool" where
  "dle a b = (dlt a b \<or> deq a b)"

definition dge :: "double \<Rightarrow> double \<Rightarrow> bool" where
  "dge a b = dle b a"

text \<open>Unary minus.\<close>

fun dneg :: "double \<Rightarrow> double" where
  "dneg NaN = NaN"
| "dneg NegInf = PosInf"
| "dneg (Finite a) = Finite (- a)"
| "dneg PosInf = NegInf"

text \<open>
  Addition, subtraction and division are used by the sources only to compute values that
  are handed on to the solver (a cut-off, a tightened bound). They are modelled without
  rounding; no statement below depends on the digits of such a value.
\<close>

fun dadd :: "double \<Rightarrow> double \<Rightarrow> double" where
  "dadd NaN b = NaN"
| "dadd a NaN = NaN"
| "dadd NegInf PosInf = NaN"
| "dadd PosInf NegInf = NaN"
| "dadd NegInf b = NegInf"
| "dadd PosInf b = PosInf"
| "dadd (Finite a) NegInf = NegInf"
| "dadd (Finite a) PosInf = PosInf"
| "dadd (Finite a) (Finite b) = Finite (a + b)"

definition dsub :: "double \<Rightarrow> double \<Rightarrow> double" where
  "dsub a b = dadd a (dneg b)"

text \<open>Division by a finite positive constant, the only division the sources perform.\<close>

fun ddivc :: "double \<Rightarrow> real \<Rightarrow> double" where
  "ddivc NaN c = NaN"
| "ddivc NegInf c = NegInf"
| "ddivc (Finite a) c = Finite (a / c)"
| "ddivc PosInf c = PosInf"

type_synonym VectorDouble = "double list"

section \<open>The Cbc solver interface: variables and their bounds\<close>

text \<open>
  \<^verbatim>\<open>E_VariableType\<close>: the enumerators that \<^verbatim>\<open>addVariable\<close> names, and one more for
  every value that falls into the \<^verbatim>\<open>default\<close> branch of its switch.
\<close>

datatype E_VariableType = VarReal | VarInteger | VarBinary | VarSemicontinuous | VarOther

text \<open>
  The calls into the CoinModel that \<^verbatim>\<open>addVariable\<close> makes inside its \<^verbatim>\<open>try\<close> block.
  Whether such a call throws is not decided by the sources, so it is a parameter.
\<close>

datatype CoinCall = SetColumnBounds int | SetColName int | SetInteger int

text \<open>
  \<^verbatim>\<open>E_ProblemSolutionStatus\<close>: the values \<^verbatim>\<open>getSolutionStatus\<close> produces, then
  \<open>Feasible\<close>, which the Gurobi callback assigns, and \<open>StatusNone\<close> for an iteration
  that has no status yet.
\<close>

datatype E_ProblemSolutionStatus =
  Optimal | Infeasible | Unbounded | SolutionLimit | TimeLimit | NodeLimit | Abort | Error
  | Feasible | StatusNone

text \<open>
  The fields of \<^verbatim>\<open>MIPSolverCbc\<close> that the modelled member functions read or write.
  \<open>coinColumnBounds\<close>, \<open>coinColNames\<close> and \<open>coinIntegers\<close> are the contents of
  \<^verbatim>\<open>coinModel\<close>; \<open>osiColBounds\<close> are the column bounds held by \<^verbatim>\<open>osiInterface\<close>;
  \<open>numSolves\<close> counts the invocations of \<^verbatim>\<open>CbcMain1\<close>; \<open>cbcOutputErrors\<close> is what was
  passed to \<^verbatim>\<open>env->output->outputError\<close>.
\<close>

record MIPSolverCbc =
  numberOfVariables :: int
  isProblemDiscrete :: bool
  variableTypes :: "E_VariableType list"
  variableNames :: "string list"
  variableLowerBounds :: "double list"
  variableUpperBounds :: "double list"
  coinColumnBounds :: "int \<rightharpoonup> double \<times> double"
  coinColNames :: "int \<rightharpoonup> string"
  coinIntegers :: "int set"
  osiColBounds :: "(double \<times> double) list"
  numSolves :: nat
  hasInfeasibilityRepairBeenPerformed :: bool
  cbcOutputErrors :: "string list"

text \<open>\<^verbatim>\<open>getUnboundedVariableBoundValue\<close> returns the literal \<^verbatim>\<open>1e+50\<close>.\<close>

definition getUnboundedVariableBoundValue :: double where
  "getUnboundedVariableBoundValue = Finite (10 ^ 50)"

text \<open>The state after the constructor: \<^verbatim>\<open>initializeProblem\<close> on empty containers.\<close>

definition initializeProblem :: MIPSolverCbc where
  "initializeProblem =
     \<lparr> numberOfVariables = 0, isProblemDiscrete = False, variableTypes = [],
       variableNames = [], variableLowerBounds = [], variableUpperBounds = [],
       coinColumnBounds = Map.empty, coinColNames = Map.empty, coinIntegers = {},
       osiColBounds = [], numSolves = 0, hasInfeasibilityRepairBeenPerformed = False,
       cbcOutputErrors = [] \<rparr>"

text \<open>
  The body of the \<^verbatim>\<open>try\<close> block of \<^verbatim>\<open>addVariable\<close>: the calls into the CoinModel, in
  order. \<open>Inl\<close> is the state at the moment a call throws.
\<close>

definition addVariable_try ::
  "(CoinCall \<Rightarrow> bool) \<Rightarrow> int \<Rightarrow> string \<Rightarrow> E_VariableType \<Rightarrow> double \<Rightarrow> double
     \<Rightarrow> MIPSolverCbc \<Rightarrow> MIPSolverCbc + MIPSolverCbc" where
  "addVariable_try throws index name type lowerBound upperBound s =
     (if throws (SetColumnBounds index) then Inl s
      else let s1 = s\<lparr>coinColumnBounds := (coinColumnBounds s)(index \<mapsto> (lowerBound, upperBound))\<rparr>
      in if throws (SetColName index) then Inl s1
      else let s2 = s1\<lparr>coinColNames := (coinColNames s1)(index \<mapsto> name)\<rparr>
      in if type = VarInteger \<or> type = VarBinary \<or> type = VarSemicontinuous
         then let s3 = s2\<lparr>isProblemDiscrete := True\<rparr>
              in if throws (SetInteger index) then Inl s3
                 else Inr (s3\<lparr>coinIntegers := insert index (coinIntegers s3)\<rparr>)
         else Inr s2)"

text \<open>
  \<^verbatim>\<open>addVariable\<close>: the two one-sided clamps, the \<^verbatim>\<open>try\<close> block, and on success the
  four \<^verbatim>\<open>push_back\<close>s. The result is the returned flag and the new state.
\<close>

definition addVariable ::
  "(CoinCall \<Rightarrow> bool) \<Rightarrow> string \<Rightarrow> E_VariableType \<Rightarrow> double \<Rightarrow> double
     \<Rightarrow> MIPSolverCbc \<Rightarrow> bool \<times> MIPSolverCbc" where
  "addVariable throws name type lowerBound upperBound s =
     (let index = numberOfVariables s;
          lowerBound1 = (if dlt lowerBound (dneg getUnboundedVariableBoundValue)
                         then dneg getUnboundedVariableBoundValue else lowerBound);
          upperBound1 = (if dgt upperBound getUnboundedVariableBoundValue
                         then getUnboundedVariableBoundValue else upperBound)
      in case addVariable_try throws index name type lowerBound1 upperBound1 s of
           Inl s' \<Rightarrow>
             (False, s'\<lparr>cbcOutputErrors := cbcOutputErrors s' @
                 [''Cbc exception caught when adding variable to model: '']\<rparr>)
         | Inr s' \<Rightarrow>
             (True, s'\<lparr>variableTypes := variableTypes s' @ [type],
                       variableNames := variableNames s' @ [name],
                       variableLowerBounds := variableLowerBounds s' @ [lowerBound1],
                       variableUpperBounds := variableUpperBounds s' @ [upperBound1],
                       numberOfVariables := numberOfVariables s' + 1\<rparr>))"

text \<open>One call of \<^verbatim>\<open>addVariable\<close> with its arguments, and a sequence of such calls.\<close>

record AddVariableCall =
  argName :: string
  argType :: E_VariableType
  argLowerBound :: double
  argUpperBound :: double

fun addVariables :: "(CoinCall \<Rightarrow> bool) \<Rightarrow> AddVariableCall list \<Rightarrow> MIPSolverCbc \<Rightarrow> MIPSolverCbc" where
  "addVariables throws [] s = s"
| "addVariables throws (c # cs) s =
     addVariables throws cs
       (snd (addVariable throws (argName c) (argType c) (argLowerBound c) (argUpperBound c) s))"

definition neverThrows :: "CoinCall \<Rightarrow> bool" where
  "neverThrows c = False"

text \<open>
  \<^verbatim>\<open>finalizeProblem\<close> loads the CoinModel into \<^verbatim>\<open>osiInterface\<close>: column \<open>i\<close> of the
  interface gets the bounds set for column \<open>i\<close> of the CoinModel. A column whose bounds
  were never set has CoinModel's defaults, zero and infinity.
\<close>

definition finalizeProblem :: "MIPSolverCbc \<Rightarrow> MIPSolverCbc" where
  "finalizeProblem s =
     s\<lparr>osiColBounds :=
          map (\<lambda>i. case coinColumnBounds s (int i) of
                       None \<Rightarrow> (Finite 0, PosInf) | Some b \<Rightarrow> b)
              [0 ..< nat (numberOfVariables s)]\<rparr>"

subsection \<open>Solving, and the retry on an unbounded problem\<close>

text \<open>
  Modelled from the spec: the declaration of \<^verbatim>\<open>E_ObjectiveFunctionClassification\<close> is
  not among the sources. The sources compare its values with \<^verbatim>\<open>>\<close> and \<^verbatim>\<open>>=\<close> and
  name \<^verbatim>\<open>Linear\<close>, \<^verbatim>\<open>Quadratic\<close> and \<^verbatim>\<open>QuadraticConsideredAsNonlinear\<close>; the
  specification speaks of a linear or quadratic objective and of a classification above
  quadratic. The enumerators are listed in increasing order and \<open>classRank\<close> is the
  position in that order.
\<close>

datatype E_ObjectiveFunctionClassification =
  ClassNone | Linear | Quadratic | QuadraticConsideredAsNonlinear | Signomial | Nonlinear
  | GeneralizedSignomial | Nonalgebraic

fun classRank :: "E_ObjectiveFunctionClassification \<Rightarrow> nat" where
  "classRank ClassNone = 0"
| "classRank Linear = 1"
| "classRank Quadratic = 2"
| "classRank QuadraticConsideredAsNonlinear = 3"
| "classRank Signomial = 4"
| "classRank Nonlinear = 5"
| "classRank GeneralizedSignomial = 6"
| "classRank Nonalgebraic = 7"

text \<open>
  A variable of the reformulated problem, as \<^verbatim>\<open>solveProblem\<close> sees it through
  \<^verbatim>\<open>V->index\<close>, \<^verbatim>\<open>V->lowerBound\<close>, \<^verbatim>\<open>V->upperBound\<close> and \<^verbatim>\<open>V->isDualUnbounded()\<close>.
\<close>

record Variable =
  varIndex :: int
  varLowerBound :: double
  varUpperBound :: double
  varIsDualUnbounded :: bool

text \<open>
  What \<^verbatim>\<open>solveProblem\<close> reads of \<^verbatim>\<open>env->reformulatedProblem\<close>, and the index returned
  by \<^verbatim>\<open>getDualAuxiliaryObjectiveVariableIndex()\<close>.
\<close>

record CbcProblem =
  objClassification :: E_ObjectiveFunctionClassification
  objIsDualUnbounded :: bool
  allVariables :: "Variable list"
  dualAuxiliaryObjectiveVariableIndex :: int

text \<open>
  One run of the solver (\<^verbatim>\<open>CbcMain1\<close> followed by \<^verbatim>\<open>getSolutionStatus\<close>) is an
  external computation: a function of the column bounds it is started with and of the
  number of runs made before, which either throws or yields a status.
\<close>

datatype StdException = StdException

type_synonym SolveOracle =
  "(double \<times> double) list \<Rightarrow> nat \<Rightarrow> StdException + E_ProblemSolutionStatus"

text \<open>
  \<^verbatim>\<open>osiInterface->setColBounds\<close>. An index outside the columns of the interface is
  outside the arrays the call writes to; the model leaves the bounds as they are.
\<close>

definition setColBounds :: "int \<Rightarrow> double \<Rightarrow> double \<Rightarrow> MIPSolverCbc \<Rightarrow> MIPSolverCbc" where
  "setColBounds i l u s =
     (if 0 \<le> i \<and> i < int (length (osiColBounds s))
      then s\<lparr>osiColBounds := (osiColBounds s)[nat i := (l, u)]\<rparr>
      else s)"

text \<open>
  \<^verbatim>\<open>updateVariableBound\<close>: nothing is done when both current bounds compare equal to
  the new ones; otherwise the bounds are set.
\<close>

definition updateVariableBound :: "int \<Rightarrow> double \<Rightarrow> double \<Rightarrow> MIPSolverCbc \<Rightarrow> MIPSolverCbc" where
  "updateVariableBound i l u s =
     (if 0 \<le> i \<and> i < int (length (osiColBounds s))
      then (let currentVariableBounds = osiColBounds s ! nat i
            in if deq (fst currentVariableBounds) l \<and> deq (snd currentVariableBounds) u
               then s
               else setColBounds i l u s)
      else s)"

text \<open>The bounds \<^verbatim>\<open>\<plusminus> getUnboundedVariableBoundValue() / 10e30\<close> of the retry.\<close>

definition tightenedLowerBound :: double where
  "tightenedLowerBound = ddivc (dneg getUnboundedVariableBoundValue) (10 ^ 31)"

definition tightenedUpperBound :: double where
  "tightenedUpperBound = ddivc getUnboundedVariableBoundValue (10 ^ 31)"

text \<open>
  The first loop over \<^verbatim>\<open>allVariables\<close>: every dual-unbounded variable gets the
  tightened bounds, and the flag \<^verbatim>\<open>variableBoundsUpdated\<close> records that there was one.
\<close>

fun tightenVariables :: "Variable list \<Rightarrow> bool \<times> MIPSolverCbc \<Rightarrow> bool \<times> MIPSolverCbc" where
  "tightenVariables [] (updated, s) = (updated, s)"
| "tightenVariables (V # Vs) (updated, s) =
     (if varIsDualUnbounded V
      then tightenVariables Vs
             (True, updateVariableBound (varIndex V) tightenedLowerBound tightenedUpperBound s)
      else tightenVariables Vs (updated, s))"

text \<open>
  The second loop, after the re-solve: every dual-unbounded variable gets the bounds the
  variable itself carries.
\<close>

fun restoreVariables :: "Variable list \<Rightarrow> MIPSolverCbc \<Rightarrow> MIPSolverCbc" where
  "restoreVariables [] s = s"
| "restoreVariables (V # Vs) s =
     (if varIsDualUnbounded V
      then restoreVariables Vs (updateVariableBound (varIndex V) (varLowerBound V) (varUpperBound V) s)
      else restoreVariables Vs s)"

text \<open>
  The first solve of \<^verbatim>\<open>solveProblem\<close>, inside its \<^verbatim>\<open>try\<close> block: an exception becomes
  the status \<open>Error\<close>.
\<close>

definition firstSolve :: "SolveOracle \<Rightarrow> MIPSolverCbc \<Rightarrow> E_ProblemSolutionStatus \<times> MIPSolverCbc" where
  "firstSolve solve s =
     (case solve (osiColBounds s) (numSolves s) of
        Inl e \<Rightarrow> (Error, s\<lparr>numSolves := numSolves s + 1,
                               cbcOutputErrors := cbcOutputErrors s @
                                 [''Error when solving subproblem with Cbc'']\<rparr>)
      | Inr status \<Rightarrow> (status, s\<lparr>numSolves := numSolves s + 1\<rparr>))"

text \<open>
  A solve outside the \<^verbatim>\<open>try\<close> block: an exception leaves \<^verbatim>\<open>solveProblem\<close> (\<open>Inl\<close>).
\<close>

definition reSolve ::
  "SolveOracle \<Rightarrow> MIPSolverCbc \<Rightarrow> StdException + E_ProblemSolutionStatus \<times> MIPSolverCbc" where
  "reSolve solve s =
     (case solve (osiColBounds s) (numSolves s) of
        Inl e \<Rightarrow> Inl e
      | Inr status \<Rightarrow> Inr (status, s\<lparr>numSolves := numSolves s + 1\<rparr>))"

text \<open>The block for the status \<open>Infeasible\<close>.\<close>

definition infeasibleRetry ::
  "CbcProblem \<Rightarrow> SolveOracle \<Rightarrow> E_ProblemSolutionStatus \<times> MIPSolverCbc
     \<Rightarrow> StdException + E_ProblemSolutionStatus \<times> MIPSolverCbc" where
  "infeasibleRetry prob solve r =
     (case r of (MIPSolutionStatus, s) \<Rightarrow>
        if MIPSolutionStatus = Infeasible
           \<and> objClassification prob = QuadraticConsideredAsNonlinear
        then (case reSolve solve
                     (setColBounds (dualAuxiliaryObjectiveVariableIndex prob)
                        (Finite (- 1000000000)) (Finite 1000000000) s) of
                Inl e \<Rightarrow> Inl e
              | Inr (status, s') \<Rightarrow>
                  Inr (status,
                       setColBounds (dualAuxiliaryObjectiveVariableIndex prob)
                         (dneg getUnboundedVariableBoundValue) getUnboundedVariableBoundValue s'))
        else Inr (MIPSolutionStatus, s))"

text \<open>The block for the status \<open>Unbounded\<close>.\<close>

definition unboundedTighten :: "CbcProblem \<Rightarrow> MIPSolverCbc \<Rightarrow> bool \<times> MIPSolverCbc" where
  "unboundedTighten prob s =
     (if (objClassification prob = Linear \<and> objIsDualUnbounded prob)
         \<or> (objClassification prob = Quadratic \<and> objIsDualUnbounded prob)
      then tightenVariables (allVariables prob) (False, s)
      else if classRank (objClassification prob) \<ge> classRank QuadraticConsideredAsNonlinear
      then (True, updateVariableBound (dualAuxiliaryObjectiveVariableIndex prob)
                    tightenedLowerBound tightenedUpperBound s)
      else (False, s))"

definition unboundedRetry ::
  "CbcProblem \<Rightarrow> SolveOracle \<Rightarrow> E_ProblemSolutionStatus \<times> MIPSolverCbc
     \<Rightarrow> StdException + E_ProblemSolutionStatus \<times> MIPSolverCbc" where
  "unboundedRetry prob solve r =
     (case r of (MIPSolutionStatus, s) \<Rightarrow>
        if MIPSolutionStatus = Unbounded
        then (case unboundedTighten prob s of (variableBoundsUpdated, s1) \<Rightarrow>
                if variableBoundsUpdated
                then (case reSolve solve s1 of
                        Inl e \<Rightarrow> Inl e
                      | Inr (status, s2) \<Rightarrow>
                          Inr (status,
                               (restoreVariables (allVariables prob) s2)
                                 \<lparr>hasInfeasibilityRepairBeenPerformed := True\<rparr>))
                else Inr (MIPSolutionStatus, s1))
        else Inr (MIPSolutionStatus, s))"

text \<open>\<^verbatim>\<open>solveProblem\<close>: the first solve, then the two blocks.\<close>

definition solveProblem ::
  "CbcProblem \<Rightarrow> SolveOracle \<Rightarrow> MIPSolverCbc
     \<Rightarrow> StdException + E_ProblemSolutionStatus \<times> MIPSolverCbc" where
  "solveProblem prob solve s =
     (case infeasibleRetry prob solve (firstSolve solve s) of
        Inl e \<Rightarrow> Inl e
      | Inr r \<Rightarrow> unboundedRetry prob solve r)"

section \<open>Solution points and hyperplanes\<close>

text \<open>\<^verbatim>\<open>PairIndexValue\<close>: a constraint or variable index with a value.\<close>

record PairIndexValue =
  pairIdx :: int
  pairValue :: double

record SolutionPoint =
  point :: VectorDouble
  objectiveValue :: double
  iterFound :: int
  maxDeviation :: PairIndexValue

text \<open>
  \<^verbatim>\<open>E_HyperplaneSource\<close>: the three tags the point selector assigns, and the tag of the
  objective line search named in the data model.
\<close>

datatype E_HyperplaneSource =
  MIPOptimalSolutionPoint | MIPSolutionPoolSolutionPoint | LPRelaxedSolutionPoint
  | ObjectiveLinesearch

record Hyperplane =
  sourceConstraintIndex :: int
  generatedPoint :: VectorDouble
  source :: E_HyperplaneSource

text \<open>
  \<^verbatim>\<open>GeneratedHyperplane\<close> has the fields of a hyperplane and those of the realised cut.
\<close>

record GeneratedHyperplane = Hyperplane +
  generatedConstraintIndex :: int
  generatedIter :: int
  isLazy :: bool
  isRemoved :: bool

text \<open>What is passed to the output sink.\<close>

datatype OutputMessage =
  OutputWarning string
  | OutputError string
  | OutputHyperplaneNaN int int
  | OutputIntegerCutsAdded nat
  | OutputCutoff double
  | OutputIterationReport SolutionPoint

text \<open>
  The process-wide state the point selector writes to: the hyperplane waiting list and
  the output sink.
\<close>

record ProcessInfo =
  hyperplaneWaitingList :: "Hyperplane list"
  outputLog :: "OutputMessage list"

section \<open>The point selector (cutting-plane variant)\<close>

text \<open>
  What \<^verbatim>\<open>TaskSelectHyperplanePointsSolution::run\<close> reads: whether the current iteration
  is a MILP iteration, the problem's \<^verbatim>\<open>getMostDeviatingConstraints\<close>, and the settings
  \<^verbatim>\<open>LinesearchConstraintSelectionFactor\<close> and \<^verbatim>\<open>MaxHyperplanesPerIteration\<close>.
\<close>

record SelectorEnv =
  currIterIsMILP :: bool
  getMostDeviatingConstraints :: "VectorDouble \<Rightarrow> double \<Rightarrow> PairIndexValue list"
  constrSelFactor :: double
  maxHyperplanesPerIteration :: int

text \<open>The hyperplane built in the \<^verbatim>\<open>else\<close> branch for point \<open>i\<close> and constraint \<open>c\<close>.\<close>

definition selectorHyperplane :: "SelectorEnv \<Rightarrow> nat \<Rightarrow> SolutionPoint \<Rightarrow> PairIndexValue \<Rightarrow> Hyperplane" where
  "selectorHyperplane env i sp c =
     \<lparr> sourceConstraintIndex = pairIdx c,
       generatedPoint = point sp,
       source = (if i = 0 \<and> currIterIsMILP env then MIPOptimalSolutionPoint
                 else if currIterIsMILP env then MIPSolutionPoolSolutionPoint
                 else LPRelaxedSolutionPoint) \<rparr>"

text \<open>
  The inner loop over the most deviating constraints of point \<open>i\<close>. The state is the
  counter \<^verbatim>\<open>addedHyperplanes\<close> and the process state; the first component of the result
  tells whether the \<^verbatim>\<open>return\<close> was taken.
\<close>

fun runConstraints ::
  "SelectorEnv \<Rightarrow> nat \<Rightarrow> SolutionPoint \<Rightarrow> PairIndexValue list
     \<Rightarrow> int \<times> 'a ProcessInfo_scheme \<Rightarrow> bool \<times> int \<times> 'a ProcessInfo_scheme" where
  "runConstraints env i sp [] (addedHyperplanes, p) = (False, addedHyperplanes, p)"
| "runConstraints env i sp (c # cs) (addedHyperplanes, p) =
     (if addedHyperplanes \<ge> maxHyperplanesPerIteration env then (True, addedHyperplanes, p)
      else if dlt (pairValue c) (Finite 0)
      then runConstraints env i sp cs
             (addedHyperplanes,
              p\<lparr>outputLog := outputLog p @ [OutputWarning ''LP point is in the interior!'']\<rparr>)
      else runConstraints env i sp cs
             (addedHyperplanes + 1,
              p\<lparr>hyperplaneWaitingList :=
                   hyperplaneWaitingList p @ [selectorHyperplane env i sp c]\<rparr>))"

text \<open>The outer loop over the solution points, from position \<open>i\<close> on.\<close>

fun runPoints ::
  "SelectorEnv \<Rightarrow> nat \<Rightarrow> SolutionPoint list \<Rightarrow> int \<times> 'a ProcessInfo_scheme
     \<Rightarrow> int \<times> 'a ProcessInfo_scheme" where
  "runPoints env i [] (addedHyperplanes, p) = (addedHyperplanes, p)"
| "runPoints env i (sp # sps) (addedHyperplanes, p) =
     (case runConstraints env i sp
             (getMostDeviatingConstraints env (point sp) (constrSelFactor env))
             (addedHyperplanes, p) of
        (True, r) \<Rightarrow> r
      | (False, r) \<Rightarrow> runPoints env (Suc i) sps r)"

text \<open>\<^verbatim>\<open>run(solPoints)\<close>.\<close>

definition run :: "SelectorEnv \<Rightarrow> SolutionPoint list \<Rightarrow> 'a ProcessInfo_scheme \<Rightarrow> 'a ProcessInfo_scheme" where
  "run env solPoints p = snd (runPoints env 0 solPoints (0, p))"

text \<open>
  The selection without a cap, in the words of the contract: for each point in order,
  and for each of its most deviating constraints in order, a hyperplane unless the
  violation is negative.
\<close>

definition pointHyperplanes :: "SelectorEnv \<Rightarrow> nat \<Rightarrow> SolutionPoint \<Rightarrow> Hyperplane list" where
  "pointHyperplanes env i sp =
     map (selectorHyperplane env i sp)
       (filter (\<lambda>c. \<not> dlt (pairValue c) (Finite 0))
          (getMostDeviatingConstraints env (point sp) (constrSelFactor env)))"

fun uncappedHyperplanes :: "SelectorEnv \<Rightarrow> nat \<Rightarrow> SolutionPoint list \<Rightarrow> Hyperplane list" where
  "uncappedHyperplanes env i [] = []"
| "uncappedHyperplanes env i (sp # sps) =
     pointHyperplanes env i sp @ uncappedHyperplanes env (Suc i) sps"

section \<open>The state of the lazy-constraint callback\<close>

text \<open>The reason codes \<^verbatim>\<open>where\<close> of a Gurobi callback.\<close>

datatype GRB_CB_Where =
  GRB_CB_POLLING | GRB_CB_PRESOLVE | GRB_CB_SIMPLEX | GRB_CB_MIP | GRB_CB_MIPSOL
  | GRB_CB_MIPNODE | GRB_CB_MESSAGE | GRB_CB_BARRIER | GRB_CB_MULTIOBJ

definition GRB_OPTIMAL :: int where
  "GRB_OPTIMAL = 2"

text \<open>
  One callback event: the reason code and what the solver's accessors return during this
  invocation. \<open>objBnd\<close> is \<^verbatim>\<open>GRB_CB_MIP_OBJBND\<close>, \<^verbatim>\<open>GRB_CB_MIPSOL_OBJBND\<close> or
  \<^verbatim>\<open>GRB_CB_MIPNODE_OBJBND\<close>, according to the reason; \<open>mipSolution\<close> and \<open>nodeRel\<close>
  are \<^verbatim>\<open>getSolution(vars[i])\<close> and \<^verbatim>\<open>getNodeRel(vars[i])\<close> for \<open>i\<close> below
  \<^verbatim>\<open>numVar\<close>; the node counts are the values already cast to \<^verbatim>\<open>int\<close>.
\<close>

record CallbackEvent =
  cbWhere :: GRB_CB_Where
  objBnd :: double
  mipsolObj :: double
  mipnodeStatus :: int
  mipSolution :: VectorDouble
  nodeRel :: VectorDouble
  mipNodCnt :: int
  mipNodLft :: int

datatype E_DualSolutionSource = MIPSolverBound

record DualSolution =
  dualPoint :: VectorDouble
  dualSourceType :: E_DualSolutionSource
  dualObjValue :: double
  dualIterFound :: int

text \<open>
  The tag of a primal candidate: \<^verbatim>\<open>LazyConstraintCallback\<close> is the one the callback
  passes; the other two stand for the tags of the two primal searches, whose code is
  outside the callback.
\<close>

datatype E_PrimalSolutionSource =
  LazyConstraintCallback | PrimalLinesearch | PrimalNLPFixedIntegers

text \<open>The fields of an \<^verbatim>\<open>Iteration\<close> that the callback reads or writes.\<close>

record Iteration =
  iterationNumber :: int
  isSolved :: bool
  relaxedLazyHyperplanesAdded :: int
  numHyperplanesAdded :: int
  totNumHyperplanes :: int
  solutionStatus :: E_ProblemSolutionStatus
  iterObjectiveValue :: double
  numberOfExploredNodes :: int
  numberOfOpenNodes :: int
  currentObjectiveBounds :: "double \<times> double"

text \<open>
  A constraint \<^verbatim>\<open>expr <= rhs\<close> handed to \<^verbatim>\<open>addLazy\<close>: the terms of the linear
  expression, each a coefficient and a variable index, and the right-hand side.
\<close>

record LazyConstraint =
  lazyTerms :: "(double \<times> int) list"
  lazyRhs :: double

text \<open>The tasks the callback can run; the log of runs records which ran, on what.\<close>

datatype TaskRun =
  UpdateInteriorPoint
  | SelectHyperplanePointsESH "SolutionPoint list"
  | SelectHyperplanePointsECP "SolutionPoint list"
  | SelectHyperplanePointsByObjectiveLinesearch "SolutionPoint list"
  | SelectPrimalCandidatesFromLinesearch "SolutionPoint list"
  | SelectPrimalCandidatesFromNLP

text \<open>
  Everything the callback can change: the results (bounds, candidates, iterations), the
  dual solver's lists, the members of the callback object, and what it did to the
  running search (\<open>lazyConstraints\<close>: the constraints accepted by \<^verbatim>\<open>addLazy\<close>;
  \<open>solutionsSet\<close>: the calls of \<^verbatim>\<open>setSolution\<close>; \<open>cutoff\<close>: the last value given to
  \<^verbatim>\<open>GRB_DoubleParam_Cutoff\<close>; \<open>aborted\<close>: whether \<^verbatim>\<open>abort()\<close> was called).
\<close>

record CallbackState = ProcessInfo +
  dualBound :: double
  primalBound :: double
  primalSolution :: VectorDouble
  dualSolutionCandidates :: "DualSolution list"
  primalSolutionCandidates :: "(SolutionPoint \<times> E_PrimalSolutionSource) list"
  lazyConstraints :: "LazyConstraint list"
  generatedHyperplanes :: "GeneratedHyperplane list"
  integerCutWaitingList :: "(int list \<times> int list) list"
  numberOfIntegerCuts :: int
  previousIterations :: "Iteration list"
  currIter :: Iteration
  statsNumberOfExploredNodes :: int
  lastUpdatedPrimal :: double
  lastExploredNodes :: int
  lastOpenNodes :: int
  cbCalls :: int
  lastNumAddedHyperplanes :: int
  aborted :: bool
  solutionsSet :: "(int \<times> double) list"
  tmpVals :: "double list"
  cutoff :: "double option"
  taskLog :: "TaskRun list"

text \<open>
  What the callback reads and does not change: properties of the problems, settings, and
  the collaborators whose code is outside the callback. A task that selects hyperplane
  points is given by the hyperplanes it pushes onto the waiting list, a task that looks
  for primal solutions by the candidates it submits; both may depend on the state.
  \<open>defaultMaxDeviation\<close> is the value of a default-constructed \<^verbatim>\<open>PairIndexValue\<close>.
\<close>

record CallbackEnv =
  isMinimization :: bool
  objectiveClassification :: E_ObjectiveFunctionClassification
  problemNumberOfNonlinearConstraints :: int
  reformulatedNumberOfNonlinearConstraints :: int
  problemMaxNumericConstraintValue :: "VectorDouble \<Rightarrow> PairIndexValue"
  reformulatedMaxNumericConstraintValue :: "VectorDouble \<Rightarrow> PairIndexValue"
  problemObjectiveValue :: "VectorDouble \<Rightarrow> double"
  reformulatedObjectiveValue :: "VectorDouble \<Rightarrow> double"
  defaultMaxDeviation :: PairIndexValue
  cutStrategyIsESH :: bool
  relaxationMaxLazyConstraints :: int
  constraintTolerance :: double
  primalLinesearchUse :: bool
  useIntegerCuts :: bool
  mipCutOffTolerance :: double
  isAbsoluteObjectiveGapToleranceMet :: "double \<Rightarrow> double \<Rightarrow> bool"
  isRelativeObjectiveGapToleranceMet :: "double \<Rightarrow> double \<Rightarrow> bool"
  checkIterationLimit :: "CallbackState \<Rightarrow> bool"
  selectHyperplanePoints :: "CallbackState \<Rightarrow> SolutionPoint list \<Rightarrow> Hyperplane list"
  selectHyperplanePointsByObjectiveLinesearch ::
    "CallbackState \<Rightarrow> SolutionPoint list \<Rightarrow> Hyperplane list"
  createHyperplaneTerms :: "Hyperplane \<Rightarrow> (PairIndexValue list \<times> double) option"
  addLazyThrows :: "LazyConstraint \<Rightarrow> bool"
  primalCandidatesFromLinesearch :: "CallbackState \<Rightarrow> SolutionPoint list \<Rightarrow> SolutionPoint list"
  checkFixedNLPStrategy :: "CallbackState \<Rightarrow> SolutionPoint \<Rightarrow> bool"
  primalCandidatesFromNLP :: "CallbackState \<Rightarrow> SolutionPoint \<Rightarrow> SolutionPoint list"
  hasAuxilliaryObjectiveVariable :: bool
  numVar :: int

section \<open>The bound ledger\<close>

text \<open>
  Strict improvement of a bound in the direction of optimisation: a dual bound improves
  upwards and a primal bound downwards when minimising, and the other way round when
  maximising.
\<close>

definition dualImproves :: "bool \<Rightarrow> double \<Rightarrow> double \<Rightarrow> bool" where
  "dualImproves isMin new old = (if isMin then dgt new old else dlt new old)"

definition primalImproves :: "bool \<Rightarrow> double \<Rightarrow> double \<Rightarrow> bool" where
  "primalImproves isMin new old = (if isMin then dlt new old else dgt new old)"

text \<open>
  Modelled from the spec: \<^verbatim>\<open>DualSolver::addDualSolutionCandidate\<close> is not among the
  sources. The candidate is accepted, and the best-known dual bound is updated only if
  the candidate improves it strictly in the direction of optimisation; a tie does not
  update.
\<close>

definition addDualSolutionCandidate :: "CallbackEnv \<Rightarrow> DualSolution \<Rightarrow> CallbackState \<Rightarrow> CallbackState" where
  "addDualSolutionCandidate env sol s =
     s\<lparr>dualSolutionCandidates := dualSolutionCandidates s @ [sol],
       dualBound := (if dualImproves (isMinimization env) (dualObjValue sol) (dualBound s)
                     then dualObjValue sol else dualBound s)\<rparr>"

text \<open>
  Modelled from the spec: \<^verbatim>\<open>PrimalSolver::addPrimalSolutionCandidate\<close> is not among
  the sources. The candidate is accepted, and the best-known primal bound, with the
  solution that attains it, is updated only if the candidate's objective value improves
  it strictly in the direction of optimisation; a tie does not update.
\<close>

definition addPrimalSolutionCandidate ::
  "CallbackEnv \<Rightarrow> E_PrimalSolutionSource \<Rightarrow> CallbackState \<Rightarrow> SolutionPoint \<Rightarrow> CallbackState" where
  "addPrimalSolutionCandidate env src s pt =
     (let better = primalImproves (isMinimization env) (objectiveValue pt) (primalBound s)
      in s\<lparr>primalSolutionCandidates := primalSolutionCandidates s @ [(pt, src)],
           primalBound := (if better then objectiveValue pt else primalBound s),
           primalSolution := (if better then point pt else primalSolution s)\<rparr>)"

text \<open>
  Modelled from the spec: \<^verbatim>\<open>Results::createIteration\<close> is not among the sources. The
  current iteration is closed and kept, and a new one becomes current: the next number,
  not solved, no hyperplanes added yet, the cumulative count carried over.
\<close>

definition createIteration :: "CallbackState \<Rightarrow> CallbackState" where
  "createIteration s =
     s\<lparr>previousIterations := previousIterations s @ [currIter s],
       currIter :=
         \<lparr> iterationNumber = iterationNumber (currIter s) + 1,
           isSolved = False,
           relaxedLazyHyperplanesAdded = 0,
           numHyperplanesAdded = 0,
           totNumHyperplanes = totNumHyperplanes (currIter s),
           solutionStatus = StatusNone,
           iterObjectiveValue = NaN,
           numberOfExploredNodes = 0,
           numberOfOpenNodes = 0,
           currentObjectiveBounds = (dualBound s, primalBound s) \<rparr>\<rparr>"

section \<open>Building a cut from a hyperplane\<close>

text \<open>
  The local variable \<^verbatim>\<open>genHyperplane\<close> of \<^verbatim>\<open>createHyperplane\<close>, as it is filled in
  after \<^verbatim>\<open>addLazy\<close>: \<^verbatim>\<open>constrIndex\<close> is the constant \<^verbatim>\<open>0\<close>.
\<close>

definition genHyperplane :: "Hyperplane \<Rightarrow> Iteration \<Rightarrow> GeneratedHyperplane" where
  "genHyperplane hyperplane iter =
     \<lparr> sourceConstraintIndex = sourceConstraintIndex hyperplane,
       generatedPoint = generatedPoint hyperplane,
       source = source hyperplane,
       generatedConstraintIndex = 0,
       generatedIter = iterationNumber iter,
       isLazy = False,
       isRemoved = False \<rparr>"

text \<open>The constraint \<^verbatim>\<open>expr <= -tmpPair.second\<close> built from the terms.\<close>

definition hyperplaneConstraint :: "PairIndexValue list \<times> double \<Rightarrow> LazyConstraint" where
  "hyperplaneConstraint tmpPair =
     \<lparr> lazyTerms = map (\<lambda>E. (pairValue E, pairIdx E)) (fst tmpPair),
       lazyRhs = dneg (snd tmpPair) \<rparr>"

text \<open>
  \<^verbatim>\<open>createHyperplane\<close>. The first loop stops at the first term whose value differs from
  itself. The statement that would append \<^verbatim>\<open>genHyperplane\<close> to the list of generated
  hyperplanes is commented out in the source, so that list is not written. An exception of
  \<^verbatim>\<open>addLazy\<close> is caught and reported.
\<close>

definition createHyperplane :: "CallbackEnv \<Rightarrow> CallbackState \<Rightarrow> Hyperplane \<Rightarrow> CallbackState" where
  "createHyperplane env s hyperplane =
     (case createHyperplaneTerms env hyperplane of
        None \<Rightarrow> s
      | Some tmpPair \<Rightarrow>
          (case find (\<lambda>E. dne (pairValue E) (pairValue E)) (fst tmpPair) of
             Some E \<Rightarrow>
               s\<lparr>outputLog := outputLog s @
                    [OutputHyperplaneNaN (sourceConstraintIndex hyperplane) (pairIdx E)]\<rparr>
           | None \<Rightarrow>
               if addLazyThrows env (hyperplaneConstraint tmpPair)
               then s\<lparr>outputLog := outputLog s @
                         [OutputError ''Gurobi error when creating lazy hyperplane'']\<rparr>
               else s\<lparr>lazyConstraints := lazyConstraints s @ [hyperplaneConstraint tmpPair],
                      currIter := (currIter s)
                        \<lparr>numHyperplanesAdded := numHyperplanesAdded (currIter s) + 1,
                         totNumHyperplanes := totNumHyperplanes (currIter s) + 1\<rparr>\<rparr>))"

text \<open>\<^verbatim>\<open>createIntegerCut\<close>, for the indexes of the binaries that are one.\<close>

definition integerCutConstraint :: "int list \<Rightarrow> LazyConstraint" where
  "integerCutConstraint binaryIndexes =
     \<lparr> lazyTerms = map (\<lambda>i. (Finite 1, i)) binaryIndexes,
       lazyRhs = Finite (real (length binaryIndexes) - 1) \<rparr>"

definition createIntegerCut :: "CallbackEnv \<Rightarrow> CallbackState \<Rightarrow> int list \<times> int list \<Rightarrow> CallbackState" where
  "createIntegerCut env s ic =
     (if addLazyThrows env (integerCutConstraint (fst ic))
      then s\<lparr>outputLog := outputLog s @
                [OutputError ''Gurobi error when adding lazy integer cut'']\<rparr>
      else s\<lparr>lazyConstraints := lazyConstraints s @ [integerCutConstraint (fst ic)],
             numberOfIntegerCuts := numberOfIntegerCuts s + 1\<rparr>)"

section \<open>Adding lazy constraints\<close>

text \<open>
  Running the task that selects hyperplane points (the supporting-hyperplane or the
  cutting-plane variant, by the setting \<^verbatim>\<open>CutStrategy\<close>): the run is logged and the
  selected hyperplanes are pushed onto the waiting list.
\<close>

definition runSelectHyperplanePoints :: "CallbackEnv \<Rightarrow> SolutionPoint list \<Rightarrow> CallbackState \<Rightarrow> CallbackState" where
  "runSelectHyperplanePoints env pts s =
     s\<lparr>taskLog := taskLog s @
          [if cutStrategyIsESH env then SelectHyperplanePointsESH pts
           else SelectHyperplanePointsECP pts],
       hyperplaneWaitingList := hyperplaneWaitingList s @ selectHyperplanePoints env s pts\<rparr>"

definition runSelectByObjectiveLinesearch :: "CallbackEnv \<Rightarrow> SolutionPoint list \<Rightarrow> CallbackState \<Rightarrow> CallbackState" where
  "runSelectByObjectiveLinesearch env pts s =
     s\<lparr>taskLog := taskLog s @ [SelectHyperplanePointsByObjectiveLinesearch pts],
       hyperplaneWaitingList :=
         hyperplaneWaitingList s @ selectHyperplanePointsByObjectiveLinesearch env s pts\<rparr>"

text \<open>The loop over the waiting list: each hyperplane is turned into a cut.\<close>

definition flushStep :: "CallbackEnv \<Rightarrow> CallbackState \<Rightarrow> Hyperplane \<Rightarrow> CallbackState" where
  "flushStep env s hp =
     (createHyperplane env s hp)
       \<lparr>lastNumAddedHyperplanes := lastNumAddedHyperplanes (createHyperplane env s hp) + 1\<rparr>"

text \<open>
  \<^verbatim>\<open>addLazyConstraint\<close>. The task of the objective line search exists exactly when the
  constructor found the classification above \<open>Quadratic\<close>, which is the condition
  under which it is run here.
\<close>

definition addLazyConstraint :: "CallbackEnv \<Rightarrow> SolutionPoint list \<Rightarrow> CallbackState \<Rightarrow> CallbackState" where
  "addLazyConstraint env candidatePoints s =
     (let s0 = s\<lparr>cbCalls := cbCalls s + 1\<rparr>;
          s1 = (if cutStrategyIsESH env
                then let a = s0\<lparr>taskLog := taskLog s0 @ [UpdateInteriorPoint]\<rparr>;
                         b = runSelectHyperplanePoints env candidatePoints a
                     in if classRank (objectiveClassification env) > classRank Quadratic
                        then runSelectByObjectiveLinesearch env candidatePoints b
                        else b
                else let b = runSelectHyperplanePoints env candidatePoints s0
                     in if classRank (objectiveClassification env) > classRank Quadratic
                        then runSelectByObjectiveLinesearch env candidatePoints b
                        else b);
          s2 = foldl (flushStep env) s1 (hyperplaneWaitingList s1)
      in s2\<lparr>hyperplaneWaitingList := []\<rparr>)"

section \<open>The callback\<close>

text \<open>The check for a better dual bound.\<close>

definition cbDualBound :: "CallbackEnv \<Rightarrow> CallbackEvent \<Rightarrow> CallbackState \<Rightarrow> CallbackState" where
  "cbDualBound env ev s =
     (if cbWhere ev = GRB_CB_MIP \<or> cbWhere ev = GRB_CB_MIPSOL \<or> cbWhere ev = GRB_CB_MIPNODE
      then (let tmpDualObjBound = objBnd ev
            in if (isMinimization env \<and> dgt tmpDualObjBound (dualBound s))
                  \<or> (\<not> isMinimization env \<and> dlt tmpDualObjBound (dualBound s))
               then addDualSolutionCandidate env
                      \<lparr> dualPoint = [], dualSourceType = MIPSolverBound,
                        dualObjValue = tmpDualObjBound,
                        dualIterFound = iterationNumber (currIter s) \<rparr> s
               else s)
      else s)"

text \<open>The check for a new primal solution.\<close>

definition cbPrimalSolution :: "CallbackEnv \<Rightarrow> CallbackEvent \<Rightarrow> CallbackState \<Rightarrow> CallbackState" where
  "cbPrimalSolution env ev s =
     (if cbWhere ev = GRB_CB_MIPSOL
      then (let tmpPrimalObjBound = mipsolObj ev
            in if dlt tmpPrimalObjBound (Finite (10 ^ 100))
                  \<and> ((isMinimization env \<and> dlt tmpPrimalObjBound (primalBound s))
                     \<or> (\<not> isMinimization env \<and> dgt tmpPrimalObjBound (primalBound s)))
               then (let primalSolution = mipSolution ev
                     in addPrimalSolutionCandidate env LazyConstraintCallback s
                          \<lparr> point = primalSolution,
                            objectiveValue = problemObjectiveValue env primalSolution,
                            iterFound = iterationNumber (currIter s),
                            maxDeviation =
                              (if problemNumberOfNonlinearConstraints env > 0
                               then problemMaxNumericConstraintValue env primalSolution
                               else defaultMaxDeviation env) \<rparr>)
               else s)
      else s)"

text \<open>The condition under which the search is aborted.\<close>

definition gapToleranceMet :: "CallbackEnv \<Rightarrow> CallbackState \<Rightarrow> bool" where
  "gapToleranceMet env s =
     (isAbsoluteObjectiveGapToleranceMet env (dualBound s) (primalBound s)
      \<or> isRelativeObjectiveGapToleranceMet env (dualBound s) (primalBound s))"

text \<open>The solution point \<^verbatim>\<open>tmpSolPt\<close> built from the relaxation at the node.\<close>

definition relaxationSolutionPoint :: "CallbackEnv \<Rightarrow> CallbackEvent \<Rightarrow> CallbackState \<Rightarrow> SolutionPoint" where
  "relaxationSolutionPoint env ev s =
     (let solution = nodeRel ev
      in \<lparr> point = solution,
           objectiveValue = reformulatedObjectiveValue env solution,
           iterFound = iterationNumber (currIter s),
           maxDeviation =
             (if problemNumberOfNonlinearConstraints env > 0
              then reformulatedMaxNumericConstraintValue env solution
              else defaultMaxDeviation env) \<rparr>)"

text \<open>
  The branch for an optimal relaxation at a node. The selected hyperplanes are pushed
  onto the waiting list and counted; the branch has no call of \<^verbatim>\<open>createHyperplane\<close> or
  \<^verbatim>\<open>addLazy\<close>.
\<close>

definition cbRelaxationNode :: "CallbackEnv \<Rightarrow> CallbackEvent \<Rightarrow> CallbackState \<Rightarrow> CallbackState" where
  "cbRelaxationNode env ev s =
     (if cbWhere ev = GRB_CB_MIPNODE \<and> mipnodeStatus ev = GRB_OPTIMAL
      then (if relaxedLazyHyperplanesAdded (currIter s) < relaxationMaxLazyConstraints env
            then (let waitingListSize = int (length (hyperplaneWaitingList s));
                      tmpSolPt = relaxationSolutionPoint env ev s;
                      s1 = runSelectHyperplanePoints env [tmpSolPt] s
                  in s1\<lparr>currIter := (currIter s1)
                          \<lparr>relaxedLazyHyperplanesAdded :=
                             relaxedLazyHyperplanesAdded (currIter s1)
                             + (int (length (hyperplaneWaitingList s1)) - waitingListSize)\<rparr>\<rparr>)
            else s)
      else s)"

text \<open>
  The search for primal candidates along the line, and with fixed integers: the run is
  logged and the candidates found go to the ledger.
\<close>

definition runPrimalLinesearch :: "CallbackEnv \<Rightarrow> SolutionPoint list \<Rightarrow> CallbackState \<Rightarrow> CallbackState" where
  "runPrimalLinesearch env pts s =
     foldl (addPrimalSolutionCandidate env PrimalLinesearch)
       (s\<lparr>taskLog := taskLog s @ [SelectPrimalCandidatesFromLinesearch pts]\<rparr>)
       (primalCandidatesFromLinesearch env s pts)"

definition runFixedNLP :: "CallbackEnv \<Rightarrow> SolutionPoint \<Rightarrow> CallbackState \<Rightarrow> CallbackState" where
  "runFixedNLP env pt s =
     foldl (addPrimalSolutionCandidate env PrimalNLPFixedIntegers)
       (s\<lparr>taskLog := taskLog s @ [SelectPrimalCandidatesFromNLP]\<rparr>)
       (primalCandidatesFromNLP env s pt)"

text \<open>The integer cuts that wait are added, reported and cleared.\<close>

definition flushIntegerCuts :: "CallbackEnv \<Rightarrow> CallbackState \<Rightarrow> CallbackState" where
  "flushIntegerCuts env s =
     (let s1 = foldl (createIntegerCut env) s (integerCutWaitingList s);
          s2 = (if integerCutWaitingList s \<noteq> []
                then s1\<lparr>outputLog := outputLog s1 @
                          [OutputIntegerCutsAdded (length (integerCutWaitingList s))]\<rparr>
                else s1)
      in s2\<lparr>integerCutWaitingList := []\<rparr>)"

text \<open>The solution point \<^verbatim>\<open>solutionCandidate\<close> built from the integer-feasible solution.\<close>

definition integerSolutionCandidate :: "CallbackEnv \<Rightarrow> CallbackEvent \<Rightarrow> CallbackState \<Rightarrow> SolutionPoint" where
  "integerSolutionCandidate env ev s =
     (let solution = mipSolution ev
      in \<lparr> point = solution,
           objectiveValue = mipsolObj ev,
           iterFound = iterationNumber (currIter s),
           maxDeviation =
             (if reformulatedNumberOfNonlinearConstraints env > 0
              then reformulatedMaxNumericConstraintValue env solution
              else defaultMaxDeviation env) \<rparr>)"

text \<open>The statistics written to the current iteration after the cuts were added.\<close>

definition recordIterationStatistics :: "CallbackEvent \<Rightarrow> CallbackState \<Rightarrow> CallbackState" where
  "recordIterationStatistics ev s =
     s\<lparr>currIter := (currIter s)
          \<lparr>solutionStatus := Feasible,
           iterObjectiveValue := mipsolObj ev,
           numberOfExploredNodes := lastExploredNodes s - statsNumberOfExploredNodes s,
           numberOfOpenNodes := lastOpenNodes s,
           currentObjectiveBounds := (dualBound s, primalBound s)\<rparr>,
       statsNumberOfExploredNodes := lastExploredNodes s\<rparr>"

text \<open>The two optional searches for a primal solution.\<close>

definition primalSearches :: "CallbackEnv \<Rightarrow> SolutionPoint \<Rightarrow> CallbackState \<Rightarrow> CallbackState" where
  "primalSearches env solutionCandidate s =
     (let s1 = (if primalLinesearchUse env \<and> reformulatedNumberOfNonlinearConstraints env > 0
                then runPrimalLinesearch env [solutionCandidate] s else s)
      in if checkFixedNLPStrategy env s1 solutionCandidate
         then runFixedNLP env solutionCandidate s1 else s1)"

text \<open>The optional flush of the integer cuts, and the closing of the iteration.\<close>

definition closeIteration :: "CallbackEnv \<Rightarrow> SolutionPoint \<Rightarrow> CallbackState \<Rightarrow> CallbackState" where
  "closeIteration env solutionCandidate s =
     (let s1 = (if useIntegerCuts env then flushIntegerCuts env s else s)
      in s1\<lparr>currIter := (currIter s1)\<lparr>isSolved := True\<rparr>,
            outputLog := outputLog s1 @ [OutputIterationReport solutionCandidate]\<rparr>)"

text \<open>
  The part of the branch for an integer-feasible solution that follows the test of the
  constraint tolerance: cuts, statistics, primal searches, integer cuts, closing.
\<close>

definition integerSolutionCuts :: "CallbackEnv \<Rightarrow> CallbackEvent \<Rightarrow> CallbackState \<Rightarrow> CallbackState" where
  "integerSolutionCuts env ev s =
     closeIteration env (integerSolutionCandidate env ev s)
       (primalSearches env (integerSolutionCandidate env ev s)
          (recordIterationStatistics ev
             (addLazyConstraint env [integerSolutionCandidate env ev s] s)))"

text \<open>Opening a new iteration if the current one is already solved.\<close>

definition openIteration :: "CallbackState \<Rightarrow> CallbackState" where
  "openIteration s = (if isSolved (currIter s) then createIteration s else s)"

text \<open>
  The branch for an integer-feasible solution. \<open>Inl\<close> is a state in which the callback
  returns at once, \<open>Inr\<close> one from which it goes on.
\<close>

definition cbIntegerSolution ::
  "CallbackEnv \<Rightarrow> CallbackEvent \<Rightarrow> CallbackState \<Rightarrow> CallbackState + CallbackState" where
  "cbIntegerSolution env ev s =
     (if cbWhere ev = GRB_CB_MIPSOL
      then
        (if reformulatedNumberOfNonlinearConstraints env > 0
            \<and> dle (pairValue (reformulatedMaxNumericConstraintValue env (mipSolution ev)))
                   (constraintTolerance env)
         then Inl (openIteration s)
         else if gapToleranceMet env (integerSolutionCuts env ev (openIteration s))
         then Inl ((integerSolutionCuts env ev (openIteration s))\<lparr>aborted := True\<rparr>)
         else Inr (integerSolutionCuts env ev (openIteration s)))
      else Inr s)"

text \<open>The node counts are remembered on a \<^verbatim>\<open>GRB_CB_MIP\<close> event.\<close>

definition cbNodeCounts :: "CallbackEvent \<Rightarrow> CallbackState \<Rightarrow> CallbackState" where
  "cbNodeCounts ev s =
     (if cbWhere ev = GRB_CB_MIP
      then s\<lparr>lastExploredNodes := mipNodCnt ev, lastOpenNodes := mipNodLft ev\<rparr>
      else s)"

text \<open>
  The block that hands the stored primal solution back to the solver as incumbent
  candidate. Its guard is written as in the source: for a maximisation the primal bound
  is compared with itself.
\<close>

definition cbIncumbent :: "CallbackEnv \<Rightarrow> CallbackState \<Rightarrow> CallbackState" where
  "cbIncumbent env s =
     (let primalBound0 = primalBound s
      in if (isMinimization env \<and> dlt (lastUpdatedPrimal s) primalBound0)
            \<or> (\<not> isMinimization env \<and> dgt primalBound0 primalBound0)
         then s\<lparr>solutionsSet := solutionsSet s
                    @ zip (map int [0 ..< length (primalSolution s)]) (primalSolution s)
                    @ (if hasAuxilliaryObjectiveVariable env
                       then [(numVar env - 1, primalBound s)] else []),
                tmpVals := tmpVals s
                    @ (if hasAuxilliaryObjectiveVariable env then [primalBound s] else []),
                lastUpdatedPrimal := primalBound0\<rparr>
         else s)"

text \<open>The cut-off is set from the primal bound.\<close>

definition cbCutoff :: "CallbackEnv \<Rightarrow> CallbackState \<Rightarrow> CallbackState" where
  "cbCutoff env s =
     (let cutOffTol = mipCutOffTolerance env;
          c = (if isMinimization env then dadd (primalBound s) cutOffTol
               else dsub (dneg (primalBound s)) cutOffTol)
      in s\<lparr>cutoff := Some c, outputLog := outputLog s @ [OutputCutoff c]\<rparr>)"

definition cbIncumbentAndCutoff :: "CallbackEnv \<Rightarrow> CallbackEvent \<Rightarrow> CallbackState \<Rightarrow> CallbackState" where
  "cbIncumbentAndCutoff env ev s =
     (if cbWhere ev = GRB_CB_MIPSOL then cbCutoff env (cbIncumbent env s) else s)"

text \<open>
  \<^verbatim>\<open>GurobiCallback::callback\<close>. The accessors of the solver are taken to deliver the
  values of the event; an exception of theirs would end the invocation at that point with
  an error report.
\<close>

definition callback :: "CallbackEnv \<Rightarrow> CallbackEvent \<Rightarrow> CallbackState \<Rightarrow> CallbackState" where
  "callback env ev s =
     (if cbWhere ev = GRB_CB_POLLING \<or> cbWhere ev = GRB_CB_PRESOLVE
         \<or> cbWhere ev = GRB_CB_SIMPLEX \<or> cbWhere ev = GRB_CB_MESSAGE
         \<or> cbWhere ev = GRB_CB_BARRIER
      then s
      else if gapToleranceMet env (cbPrimalSolution env ev (cbDualBound env ev s))
              \<or> checkIterationLimit env (cbPrimalSolution env ev (cbDualBound env ev s))
      then (cbPrimalSolution env ev (cbDualBound env ev s))\<lparr>aborted := True\<rparr>
      else (case cbIntegerSolution env ev
                   (cbRelaxationNode env ev (cbPrimalSolution env ev (cbDualBound env ev s))) of
              Inl s4 \<Rightarrow> s4
            | Inr s4 \<Rightarrow> cbIncumbentAndCutoff env ev (cbNodeCounts ev s4)))"




text \<open>
  The bounds recorded for the variables respect the one-sided clamps: no lower bound is
  less than minus the unbounded value, and no upper bound is greater than it.
\<close>

definition boundsClamped :: "MIPSolverCbc \<Rightarrow> bool" where
  "boundsClamped s =
     ((\<forall>l \<in> set (variableLowerBounds s). \<not> dlt l (dneg getUnboundedVariableBoundValue))
      \<and> (\<forall>u \<in> set (variableUpperBounds s). \<not> dgt u getUnboundedVariableBoundValue))"

section \<open>Example data\<close>

text \<open>
  A selector environment whose problem reports four most deviating constraints at every
  point, the second with a negative violation, and a cap of two hyperplanes.
\<close>

definition exSelectorEnv :: SelectorEnv where
  "exSelectorEnv =
     \<lparr> currIterIsMILP = True,
       getMostDeviatingConstraints =
         (\<lambda>x f. [\<lparr>pairIdx = 0, pairValue = Finite 3\<rparr>, \<lparr>pairIdx = 1, pairValue = Finite (- 1)\<rparr>,
                 \<lparr>pairIdx = 2, pairValue = Finite 2\<rparr>, \<lparr>pairIdx = 3, pairValue = Finite 1\<rparr>]),
       constrSelFactor = Finite (1 / 2),
       maxHyperplanesPerIteration = 2 \<rparr>"

definition exPoint :: "real \<Rightarrow> SolutionPoint" where
  "exPoint x =
     \<lparr> point = [Finite x], objectiveValue = Finite 0, iterFound = 1,
       maxDeviation = \<lparr>pairIdx = 0, pairValue = Finite 3\<rparr> \<rparr>"

definition exProcessInfo :: ProcessInfo where
  "exProcessInfo = \<lparr> hyperplaneWaitingList = [], outputLog = [] \<rparr>"

text \<open>
  A callback environment for a minimisation with one nonlinear constraint, whose
  deviation at a point is the point's first coordinate, a nonlinear objective, the
  cutting-plane strategy, tolerances that are never met, and selection tasks that
  produce one hyperplane for each point.
\<close>

definition exMaxDev :: "VectorDouble \<Rightarrow> PairIndexValue" where
  "exMaxDev x = \<lparr> pairIdx = 0, pairValue = (case x of [] \<Rightarrow> Finite 0 | v # vs \<Rightarrow> v) \<rparr>"

definition exSelect :: "E_HyperplaneSource \<Rightarrow> CallbackState \<Rightarrow> SolutionPoint list \<Rightarrow> Hyperplane list" where
  "exSelect src s pts =
     map (\<lambda>sp. \<lparr> sourceConstraintIndex = pairIdx (maxDeviation sp),
                 generatedPoint = point sp, source = src \<rparr>) pts"

definition exTerms :: "Hyperplane \<Rightarrow> (PairIndexValue list \<times> double) option" where
  "exTerms hp = Some ([\<lparr>pairIdx = 0, pairValue = Finite 2\<rparr>], Finite (- 1))"

definition exTermsNaN :: "Hyperplane \<Rightarrow> (PairIndexValue list \<times> double) option" where
  "exTermsNaN hp =
     Some ([\<lparr>pairIdx = 0, pairValue = Finite 2\<rparr>, \<lparr>pairIdx = 1, pairValue = NaN\<rparr>], Finite (- 1))"

definition exCallbackEnv :: CallbackEnv where
  "exCallbackEnv =
     \<lparr> isMinimization = True,
       objectiveClassification = Nonlinear,
       problemNumberOfNonlinearConstraints = 1,
       reformulatedNumberOfNonlinearConstraints = 1,
       problemMaxNumericConstraintValue = exMaxDev,
       reformulatedMaxNumericConstraintValue = exMaxDev,
       problemObjectiveValue = (\<lambda>x. Finite 10),
       reformulatedObjectiveValue = (\<lambda>x. Finite 10),
       defaultMaxDeviation = \<lparr> pairIdx = 0, pairValue = Finite 0 \<rparr>,
       cutStrategyIsESH = False,
       relaxationMaxLazyConstraints = 5,
       constraintTolerance = Finite (1 / 1000),
       primalLinesearchUse = False,
       useIntegerCuts = False,
       mipCutOffTolerance = Finite (1 / 100000),
       isAbsoluteObjectiveGapToleranceMet = (\<lambda>d p. False),
       isRelativeObjectiveGapToleranceMet = (\<lambda>d p. False),
       checkIterationLimit = (\<lambda>s. False),
       selectHyperplanePoints = exSelect LPRelaxedSolutionPoint,
       selectHyperplanePointsByObjectiveLinesearch = exSelect ObjectiveLinesearch,
       createHyperplaneTerms = exTerms,
       addLazyThrows = (\<lambda>c. False),
       primalCandidatesFromLinesearch = (\<lambda>s pts. []),
       checkFixedNLPStrategy = (\<lambda>s pt. False),
       primalCandidatesFromNLP = (\<lambda>s pt. []),
       hasAuxilliaryObjectiveVariable = False,
       numVar = 1 \<rparr>"

definition exIteration :: Iteration where
  "exIteration =
     \<lparr> iterationNumber = 1, isSolved = False, relaxedLazyHyperplanesAdded = 0,
       numHyperplanesAdded = 0, totNumHyperplanes = 0, solutionStatus = StatusNone,
       iterObjectiveValue = NaN, numberOfExploredNodes = 0, numberOfOpenNodes = 0,
       currentObjectiveBounds = (NegInf, PosInf) \<rparr>"

definition exCallbackState :: CallbackState where
  "exCallbackState =
     \<lparr> hyperplaneWaitingList = [], outputLog = [],
       dualBound = NegInf, primalBound = PosInf, primalSolution = [],
       dualSolutionCandidates = [], primalSolutionCandidates = [],
       lazyConstraints = [], generatedHyperplanes = [],
       integerCutWaitingList = [], numberOfIntegerCuts = 0,
       previousIterations = [], currIter = exIteration,
       statsNumberOfExploredNodes = 0, lastUpdatedPrimal = PosInf,
       lastExploredNodes = 0, lastOpenNodes = 0, cbCalls = 0, lastNumAddedHyperplanes = 0,
       aborted = False, solutionsSet = [], tmpVals = [], cutoff = None, taskLog = [] \<rparr>"

definition exHyperplane :: Hyperplane where
  "exHyperplane =
     \<lparr> sourceConstraintIndex = 0, generatedPoint = [Finite 1], source = MIPOptimalSolutionPoint \<rparr>"

definition exSolutionPoint :: "double \<Rightarrow> SolutionPoint" where
  "exSolutionPoint v =
     \<lparr> point = [v], objectiveValue = Finite 10, iterFound = 1, maxDeviation = exMaxDev [v] \<rparr>"


text \<open>The state in which a branch with early return leaves the callback or goes on.\<close>

definition eitherState :: "CallbackState + CallbackState \<Rightarrow> CallbackState" where
  "eitherState r = (case r of Inl s \<Rightarrow> s | Inr s \<Rightarrow> s)"

definition exEvent :: "GRB_CB_Where \<Rightarrow> double \<Rightarrow> double \<Rightarrow> double \<Rightarrow> CallbackEvent" where
  "exEvent w bnd obj v =
     \<lparr> cbWhere = w, objBnd = bnd, mipsolObj = obj, mipnodeStatus = 2,
       mipSolution = [v], nodeRel = [v], mipNodCnt = 7, mipNodLft = 3 \<rparr>"

text \<open>
  Data for the solver interface: the bounds a call of \<^verbatim>\<open>solveProblem\<close> leaves behind, a
  solver that always reports an unbounded problem, the state after one variable with the
  given bounds was added and the problem finalised, and a problem with that one variable,
  dual unbounded.
\<close>

definition resultBounds ::
  "StdException + E_ProblemSolutionStatus \<times> MIPSolverCbc
     \<Rightarrow> (E_ProblemSolutionStatus \<times> (double \<times> double) list) option" where
  "resultBounds r = (case r of Inl e \<Rightarrow> None | Inr (status, s) \<Rightarrow> Some (status, osiColBounds s))"

definition alwaysUnbounded :: SolveOracle where
  "alwaysUnbounded bs n = Inr Unbounded"

definition exCbcState :: "double \<Rightarrow> double \<Rightarrow> MIPSolverCbc" where
  "exCbcState l u = finalizeProblem (snd (addVariable neverThrows ''x'' VarReal l u initializeProblem))"

definition exCbcProblem :: "E_ObjectiveFunctionClassification \<Rightarrow> double \<Rightarrow> double \<Rightarrow> CbcProblem" where
  "exCbcProblem c l u =
     \<lparr> objClassification = c, objIsDualUnbounded = True,
       allVariables = [\<lparr> varIndex = 0, varLowerBound = l, varUpperBound = u,
                         varIsDualUnbounded = True \<rparr>],
       dualAuxiliaryObjectiveVariableIndex = 0 \<rparr>"

text \<open>The columns of the dual-unbounded variables.\<close>

definition dualUnboundedIndices :: "Variable list \<Rightarrow> nat set" where
  "dualUnboundedIndices Vs = {nat (varIndex V) | V. V \<in> set Vs \<and> varIsDualUnbounded V \<and> 0 \<le> varIndex V}"



section \<open>Properties of the comparisons\<close>

lemma dne_self: "dne x x = (x = NaN)"
  by (simp add: dne_def deq_def)

lemma dlt_irrefl: "\<not> dlt x x"
  by (cases x) simp_all


section \<open>Properties of \<^verbatim>\<open>addVariable\<close>\<close>

lemma addVariable_try_bounds_Inr:
  "addVariable_try throws i n ty l u s = Inr s' \<Longrightarrow>
     variableLowerBounds s' = variableLowerBounds s \<and> variableUpperBounds s' = variableUpperBounds s"
  by (auto simp: addVariable_try_def Let_def split: if_splits)

lemma addVariable_try_bounds_Inl:
  "addVariable_try throws i n ty l u s = Inl s' \<Longrightarrow>
     variableLowerBounds s' = variableLowerBounds s \<and> variableUpperBounds s' = variableUpperBounds s"
  by (auto simp: addVariable_try_def Let_def split: if_splits)

lemma addVariable_success:
  assumes "fst (addVariable throws n ty l u s)"
  shows "variableLowerBounds (snd (addVariable throws n ty l u s)) =
           variableLowerBounds s @ [if dlt l (dneg getUnboundedVariableBoundValue)
                                    then dneg getUnboundedVariableBoundValue else l]"
    and "variableUpperBounds (snd (addVariable throws n ty l u s)) =
           variableUpperBounds s @ [if dgt u getUnboundedVariableBoundValue
                                    then getUnboundedVariableBoundValue else u]"
  using assms
  by (auto simp: addVariable_def Let_def split: sum.splits dest: addVariable_try_bounds_Inr)

lemma addVariable_failure:
  assumes "\<not> fst (addVariable throws n ty l u s)"
  shows "variableLowerBounds (snd (addVariable throws n ty l u s)) = variableLowerBounds s"
    and "variableUpperBounds (snd (addVariable throws n ty l u s)) = variableUpperBounds s"
  using assms
  by (auto simp: addVariable_def Let_def split: sum.splits dest: addVariable_try_bounds_Inl)

lemma clamp_lower_ok:
  "\<not> dlt (if dlt l (dneg getUnboundedVariableBoundValue)
            then dneg getUnboundedVariableBoundValue else l) (dneg getUnboundedVariableBoundValue)"
  by (simp add: dlt_irrefl)

lemma clamp_upper_ok:
  "\<not> dgt (if dgt u getUnboundedVariableBoundValue
            then getUnboundedVariableBoundValue else u) getUnboundedVariableBoundValue"
  by (simp add: dgt_def dlt_irrefl)

lemma addVariable_boundsClamped:
  "boundsClamped s \<Longrightarrow> boundsClamped (snd (addVariable throws n ty l u s))"
proof (cases "fst (addVariable throws n ty l u s)")
  case True
  assume "boundsClamped s"
  with addVariable_success[OF True] clamp_lower_ok[of l] clamp_upper_ok[of u]
  show ?thesis unfolding boundsClamped_def by auto
next
  case False
  assume "boundsClamped s"
  with addVariable_failure[OF False] show ?thesis unfolding boundsClamped_def by auto
qed

lemma addVariables_boundsClamped:
  "boundsClamped s \<Longrightarrow> boundsClamped (addVariables throws cs s)"
  by (induction cs arbitrary: s) (auto intro: addVariable_boundsClamped)

lemma initializeProblem_boundsClamped: "boundsClamped initializeProblem"
  by (simp add: boundsClamped_def initializeProblem_def)

text \<open>
  Claim C10, as the code has it. After any sequence of calls of \<^verbatim>\<open>addVariable\<close> on a
  fresh solver, a further successful call records the lower bound clamped from below at
  \<open>-1e50\<close> and the upper bound clamped from above at \<open>1e50\<close>, each on that one side
  only; hence no recorded lower bound is less than \<open>-1e50\<close> and no recorded upper bound
  is greater than \<open>1e50\<close>. A lower bound above \<open>1e50\<close> and an upper bound below
  \<open>-1e50\<close> are recorded as they are passed.
\<close>

theorem addVariable_clamps_one_sided:
  assumes "fst (addVariable throws name type lowerBound upperBound
                  (addVariables throws cs initializeProblem))"
  shows "variableLowerBounds (snd (addVariable throws name type lowerBound upperBound
                  (addVariables throws cs initializeProblem))) =
           variableLowerBounds (addVariables throws cs initializeProblem)
             @ [if dlt lowerBound (dneg getUnboundedVariableBoundValue)
                then dneg getUnboundedVariableBoundValue else lowerBound]
         \<and> variableUpperBounds (snd (addVariable throws name type lowerBound upperBound
                  (addVariables throws cs initializeProblem))) =
           variableUpperBounds (addVariables throws cs initializeProblem)
             @ [if dgt upperBound getUnboundedVariableBoundValue
                then getUnboundedVariableBoundValue else upperBound]
         \<and> (\<forall>l \<in> set (variableLowerBounds (snd (addVariable throws name type lowerBound upperBound
                  (addVariables throws cs initializeProblem)))).
               \<not> dlt l (dneg getUnboundedVariableBoundValue))
         \<and> (\<forall>u \<in> set (variableUpperBounds (snd (addVariable throws name type lowerBound upperBound
                  (addVariables throws cs initializeProblem)))).
               \<not> dgt u getUnboundedVariableBoundValue)"
proof -
  have "boundsClamped (snd (addVariable throws name type lowerBound upperBound
                  (addVariables throws cs initializeProblem)))"
    by (intro addVariable_boundsClamped addVariables_boundsClamped initializeProblem_boundsClamped)
  then show ?thesis
    using addVariable_success[OF assms] unfolding boundsClamped_def by blast
qed

text \<open>
  The theorem at a concrete call: bounds \<open>\<plusminus>2^200\<close>, of larger magnitude than
  \<open>1e50\<close>, are recorded as \<open>\<plusminus>1e50\<close>.
\<close>

theorem addVariable_clamps_one_sided_witness:
  "fst (addVariable neverThrows ''x'' VarReal (Finite (- (2 ^ 200))) (Finite (2 ^ 200))
          (addVariables neverThrows [] initializeProblem))
   \<and> variableLowerBounds (snd (addVariable neverThrows ''x'' VarReal (Finite (- (2 ^ 200)))
          (Finite (2 ^ 200)) (addVariables neverThrows [] initializeProblem)))
       = [Finite (- (10 ^ 50))]
   \<and> variableUpperBounds (snd (addVariable neverThrows ''x'' VarReal (Finite (- (2 ^ 200)))
          (Finite (2 ^ 200)) (addVariables neverThrows [] initializeProblem)))
       = [Finite (10 ^ 50)]"
proof -
  have h: "fst (addVariable neverThrows ''x'' VarReal (Finite (- (2 ^ 200))) (Finite (2 ^ 200))
          (addVariables neverThrows [] initializeProblem))"
    by (simp add: addVariable_def addVariable_try_def neverThrows_def Let_def)
  show ?thesis
    using h addVariable_clamps_one_sided[OF h]
    by (simp add: initializeProblem_def getUnboundedVariableBoundValue_def dgt_def)
qed

text \<open>
  Claim C10 as stated fails: a successful call with the lower bound \<open>2^200\<close>, which is
  greater than \<open>1e50\<close>, records that lower bound unchanged, outside the interval from
  \<open>-1e50\<close> to \<open>1e50\<close>.
\<close>

theorem addVariable_lower_bound_above_cap_counterexample:
  "fst (addVariable neverThrows ''x'' VarReal (Finite (2 ^ 200)) (Finite (2 ^ 210)) initializeProblem)
   \<and> variableLowerBounds (snd (addVariable neverThrows ''x'' VarReal (Finite (2 ^ 200))
          (Finite (2 ^ 210)) initializeProblem)) = [Finite (2 ^ 200)]
   \<and> dgt (Finite (2 ^ 200)) getUnboundedVariableBoundValue"
  by (simp add: addVariable_def addVariable_try_def neverThrows_def Let_def
      initializeProblem_def getUnboundedVariableBoundValue_def dgt_def)

section \<open>Properties of the point selector\<close>


lemma runConstraints_spec:
  "hyperplaneWaitingList (snd (snd (runConstraints env i sp cs (a, p)))) =
     hyperplaneWaitingList p @
       take (nat (maxHyperplanesPerIteration env - a))
         (map (selectorHyperplane env i sp) (filter (\<lambda>c. \<not> dlt (pairValue c) (Finite 0)) cs))
   \<and> fst (snd (runConstraints env i sp cs (a, p))) =
       a + int (length (take (nat (maxHyperplanesPerIteration env - a))
         (map (selectorHyperplane env i sp) (filter (\<lambda>c. \<not> dlt (pairValue c) (Finite 0)) cs))))"
proof (induction cs arbitrary: a p)
  case Nil
  then show ?case by simp
next
  case (Cons c cs)
  show ?case
  proof (cases "a \<ge> maxHyperplanesPerIteration env")
    case True
    then show ?thesis by simp
  next
    case False
    then have n: "nat (maxHyperplanesPerIteration env - a) = Suc (nat (maxHyperplanesPerIteration env - (a + 1)))"
      by simp
    show ?thesis
    proof (cases "dlt (pairValue c) (Finite 0)")
      case True
      with False Cons.IH[of a] show ?thesis by simp
    next
      case neg: False
      with False Cons.IH[of "a + 1"] show ?thesis
        by (simp add: n)
    qed
  qed
qed

lemma runConstraints_returned:
  "fst (runConstraints env i sp cs (a, p)) \<Longrightarrow>
     fst (snd (runConstraints env i sp cs (a, p))) \<ge> maxHyperplanesPerIteration env"
  by (induction cs arbitrary: a p) (auto split: if_splits)

lemma runConstraints_not_returned:
  "\<not> fst (runConstraints env i sp cs (a, p)) \<Longrightarrow>
     filter (\<lambda>c. \<not> dlt (pairValue c) (Finite 0)) cs = []
     \<or> a + int (length (filter (\<lambda>c. \<not> dlt (pairValue c) (Finite 0)) cs))
          \<le> maxHyperplanesPerIteration env"
proof (induction cs arbitrary: a p)
  case Nil
  then show ?case by simp
next
  case (Cons c cs)
  from Cons.prems have lt: "a < maxHyperplanesPerIteration env"
    by (auto split: if_splits)
  show ?case
  proof (cases "dlt (pairValue c) (Finite 0)")
    case True
    with Cons lt show ?thesis by simp
  next
    case False
    with Cons.prems lt have "\<not> fst (runConstraints env i sp cs (a + 1,
        p\<lparr>hyperplaneWaitingList := hyperplaneWaitingList p @ [selectorHyperplane env i sp c]\<rparr>))"
      by simp
    from Cons.IH[OF this] lt False show ?thesis by auto
  qed
qed

lemma runPoints_spec:
  "hyperplaneWaitingList (snd (runPoints env i sps (a, p))) =
     hyperplaneWaitingList p @
       take (nat (maxHyperplanesPerIteration env - a)) (uncappedHyperplanes env i sps)
   \<and> fst (runPoints env i sps (a, p)) =
       a + int (length (take (nat (maxHyperplanesPerIteration env - a))
                          (uncappedHyperplanes env i sps)))"
proof (induction sps arbitrary: i a p)
  case Nil
  then show ?case by simp
next
  case (Cons sp sps)
  define cs where "cs = getMostDeviatingConstraints env (point sp) (constrSelFactor env)"
  define X where "X = pointHyperplanes env i sp"
  define n where "n = nat (maxHyperplanesPerIteration env - a)"
  obtain ret a' p' where r: "runConstraints env i sp cs (a, p) = (ret, a', p')"
    by (cases "runConstraints env i sp cs (a, p)") auto
  from runConstraints_spec[of env i sp cs a p] r
  have wl: "hyperplaneWaitingList p' = hyperplaneWaitingList p @ take n X"
    and a': "a' = a + int (length (take n X))"
    by (simp_all add: X_def pointHyperplanes_def cs_def n_def)
  show ?case
  proof (cases ret)
    case True
    with runConstraints_returned[of env i sp cs a p] r
    have "a' \<ge> maxHyperplanesPerIteration env" by simp
    with a' have nX: "n \<le> length X" unfolding n_def by auto
    with True r wl a' show ?thesis
      by (simp add: cs_def[symmetric] X_def[symmetric] n_def[symmetric])
  next
    case False
    with runConstraints_not_returned[of env i sp cs a p] r
    have "X = [] \<or> a + int (length X) \<le> maxHyperplanesPerIteration env"
      by (auto simp: X_def pointHyperplanes_def cs_def)
    then have full: "take n X = X" unfolding n_def by auto
    with a' have a'': "a' = a + int (length X)" by simp
    have m: "nat (maxHyperplanesPerIteration env - a') = n - length X"
      unfolding a'' n_def by simp
    from False r Cons.IH[of "Suc i" a' p'] wl full a'' m show ?thesis
      by (simp add: cs_def[symmetric] X_def[symmetric] n_def[symmetric])
  qed
qed

lemma runPoints_cap_reached:
  "a \<ge> maxHyperplanesPerIteration env \<Longrightarrow> runPoints env i sps (a, p) = (a, p)"
proof (induction sps arbitrary: i)
  case Nil
  then show ?case by simp
next
  case (Cons sp sps)
  then show ?case
    by (cases "getMostDeviatingConstraints env (point sp) (constrSelFactor env)") simp_all
qed

lemma runPoints_append:
  "int (length (uncappedHyperplanes env i sps)) \<ge> maxHyperplanesPerIteration env - a \<Longrightarrow>
     runPoints env i (sps @ ms) (a, p) = runPoints env i sps (a, p)"
proof (induction sps arbitrary: i a p)
  case Nil
  then show ?case by (simp add: runPoints_cap_reached)
next
  case (Cons sp sps)
  define cs where "cs = getMostDeviatingConstraints env (point sp) (constrSelFactor env)"
  define X where "X = pointHyperplanes env i sp"
  define n where "n = nat (maxHyperplanesPerIteration env - a)"
  obtain ret a' p' where r: "runConstraints env i sp cs (a, p) = (ret, a', p')"
    by (cases "runConstraints env i sp cs (a, p)") auto
  from runConstraints_spec[of env i sp cs a p] r
  have a': "a' = a + int (length (take n X))"
    by (simp_all add: X_def pointHyperplanes_def cs_def n_def)
  show ?case
  proof (cases ret)
    case True
    with r show ?thesis by (simp add: cs_def[symmetric])
  next
    case False
    with runConstraints_not_returned[of env i sp cs a p] r
    have "X = [] \<or> a + int (length X) \<le> maxHyperplanesPerIteration env"
      by (auto simp: X_def pointHyperplanes_def cs_def)
    then have full: "take n X = X" unfolding n_def by auto
    with a' have a'': "a' = a + int (length X)" by simp
    from Cons.prems have "int (length (uncappedHyperplanes env (Suc i) sps))
        \<ge> maxHyperplanesPerIteration env - a'"
      unfolding a'' by (simp add: X_def)
    from Cons.IH[OF this] False r show ?thesis
      by (simp add: cs_def[symmetric])
  qed
qed

text \<open>
  Claim C1. One invocation of \<^verbatim>\<open>run(solPoints)\<close> appends to the waiting list exactly
  the first \<^verbatim>\<open>MaxHyperplanesPerIteration\<close> hyperplanes of the uncapped enumeration (none
  if the setting is negative), so it enqueues at most that many; and once the enumeration
  has reached the cap, whatever points follow change nothing, neither the waiting list
  nor the output: they are dropped without a message.
\<close>

theorem run_caps_hyperplanes:
  "hyperplaneWaitingList (run env solPoints p) =
     hyperplaneWaitingList p @
       take (nat (maxHyperplanesPerIteration env)) (uncappedHyperplanes env 0 solPoints)
   \<and> int (length (hyperplaneWaitingList (run env solPoints p)))
       \<le> int (length (hyperplaneWaitingList p)) + max 0 (maxHyperplanesPerIteration env)
   \<and> (int (length (uncappedHyperplanes env 0 solPoints)) \<ge> maxHyperplanesPerIteration env
        \<longrightarrow> run env (solPoints @ ms) p = run env solPoints p)"
proof -
  have 1: "hyperplaneWaitingList (run env solPoints p) =
     hyperplaneWaitingList p @
       take (nat (maxHyperplanesPerIteration env)) (uncappedHyperplanes env 0 solPoints)"
    using runPoints_spec[of env 0 solPoints 0 p] by (simp add: run_def)
  have 2: "int (length (hyperplaneWaitingList (run env solPoints p)))
       \<le> int (length (hyperplaneWaitingList p)) + max 0 (maxHyperplanesPerIteration env)"
    unfolding 1 by auto
  have 3: "int (length (uncappedHyperplanes env 0 solPoints)) \<ge> maxHyperplanesPerIteration env
        \<longrightarrow> run env (solPoints @ ms) p = run env solPoints p"
    using runPoints_append[where env = env and i = 0 and sps = solPoints and a = 0 and ms = ms and p = p] by (simp add: run_def)
  from 1 2 3 show ?thesis by blast
qed

text \<open>
  The theorem at a concrete input: two points with three eligible constraints each and a
  cap of two. The two hyperplanes come from the first point, and a third point changes
  nothing.
\<close>

theorem run_caps_hyperplanes_witness:
  "hyperplaneWaitingList (run exSelectorEnv [exPoint 1, exPoint 2] exProcessInfo) =
     [\<lparr>sourceConstraintIndex = 0, generatedPoint = [Finite 1], source = MIPOptimalSolutionPoint\<rparr>,
      \<lparr>sourceConstraintIndex = 2, generatedPoint = [Finite 1], source = MIPOptimalSolutionPoint\<rparr>]
   \<and> run exSelectorEnv ([exPoint 1, exPoint 2] @ [exPoint 3]) exProcessInfo
       = run exSelectorEnv [exPoint 1, exPoint 2] exProcessInfo"
  using run_caps_hyperplanes[of exSelectorEnv "[exPoint 1, exPoint 2]" exProcessInfo "[exPoint 3]"]
  by (simp add: exSelectorEnv_def exPoint_def exProcessInfo_def pointHyperplanes_def
      selectorHyperplane_def)

section \<open>Properties of \<^verbatim>\<open>createHyperplane\<close> and \<^verbatim>\<open>addLazyConstraint\<close>\<close>

lemma find_NaN_Some:
  "\<exists>E \<in> set ts. pairValue E = NaN \<Longrightarrow>
     \<exists>E \<in> set ts. pairValue E = NaN \<and> find (\<lambda>E. dne (pairValue E) (pairValue E)) ts = Some E"
  by (induction ts) (auto simp: dne_self)

text \<open>
  Claim C3. If the terms produced for a hyperplane contain a coefficient that is
  not-a-number, \<^verbatim>\<open>createHyperplane\<close> changes nothing but the output, where it reports
  the first such term: no constraint is passed to \<^verbatim>\<open>addLazy\<close>, with no term at all, and
  the counters of the iteration stay as they are.
\<close>

theorem createHyperplane_NaN_discards:
  assumes "createHyperplaneTerms env hyperplane = Some (ts, c)"
    and "\<exists>E \<in> set ts. pairValue E = NaN"
  shows "lazyConstraints (createHyperplane env s hyperplane) = lazyConstraints s
       \<and> (\<exists>E \<in> set ts. pairValue E = NaN
             \<and> createHyperplane env s hyperplane =
                 s\<lparr>outputLog := outputLog s @
                      [OutputHyperplaneNaN (sourceConstraintIndex hyperplane) (pairIdx E)]\<rparr>)"
proof -
  from find_NaN_Some[OF assms(2)] obtain E where
    E: "E \<in> set ts" "pairValue E = NaN"
       "find (\<lambda>E. dne (pairValue E) (pairValue E)) ts = Some E"
    by blast
  have eq: "createHyperplane env s hyperplane =
      s\<lparr>outputLog := outputLog s @
           [OutputHyperplaneNaN (sourceConstraintIndex hyperplane) (pairIdx E)]\<rparr>"
    using assms(1) E(3) by (simp add: createHyperplane_def)
  have "lazyConstraints (createHyperplane env s hyperplane) = lazyConstraints s"
    unfolding eq by simp
  with E eq show ?thesis by blast
qed

text \<open>
  The theorem at a concrete input: the second of two coefficients is not-a-number; no
  constraint is added, not even one with the first term, and the diagnostic names
  variable 1.
\<close>

theorem createHyperplane_NaN_discards_witness:
  "createHyperplaneTerms (exCallbackEnv\<lparr>createHyperplaneTerms := exTermsNaN\<rparr>) exHyperplane
     = Some ([\<lparr>pairIdx = 0, pairValue = Finite 2\<rparr>, \<lparr>pairIdx = 1, pairValue = NaN\<rparr>], Finite (- 1))
   \<and> lazyConstraints (createHyperplane (exCallbackEnv\<lparr>createHyperplaneTerms := exTermsNaN\<rparr>)
        exCallbackState exHyperplane) = []
   \<and> outputLog (createHyperplane (exCallbackEnv\<lparr>createHyperplaneTerms := exTermsNaN\<rparr>)
        exCallbackState exHyperplane) = [OutputHyperplaneNaN 0 1]"
proof -
  have h: "createHyperplaneTerms (exCallbackEnv\<lparr>createHyperplaneTerms := exTermsNaN\<rparr>) exHyperplane
     = Some ([\<lparr>pairIdx = 0, pairValue = Finite 2\<rparr>, \<lparr>pairIdx = 1, pairValue = NaN\<rparr>], Finite (- 1))"
    by (simp add: exTermsNaN_def)
  have n: "\<exists>E \<in> set [\<lparr>pairIdx = 0, pairValue = Finite 2\<rparr>, \<lparr>pairIdx = 1, pairValue = NaN\<rparr>].
             pairValue E = NaN"
    by simp
  from createHyperplane_NaN_discards[OF h n, of exCallbackState] h
  show ?thesis
    by (auto simp: exCallbackState_def exHyperplane_def)
qed

lemma createHyperplane_generatedHyperplanes:
  "generatedHyperplanes (createHyperplane env s hp) = generatedHyperplanes s"
  by (simp add: createHyperplane_def split: option.splits)

text \<open>
  Claim C4, as the code has it. Whenever \<^verbatim>\<open>createHyperplane\<close> adds a lazy cut, the list
  of generated hyperplanes is left as it was, the row identifier put into the local
  \<^verbatim>\<open>GeneratedHyperplane\<close> value is the constant 0, and the two hyperplane counters of
  the current iteration grow by one.
\<close>

theorem createHyperplane_success_no_ledger_entry:
  assumes "lazyConstraints (createHyperplane env s hyperplane) \<noteq> lazyConstraints s"
  shows "\<exists>tmpPair. createHyperplaneTerms env hyperplane = Some tmpPair
           \<and> lazyConstraints (createHyperplane env s hyperplane)
               = lazyConstraints s @ [hyperplaneConstraint tmpPair]
           \<and> generatedHyperplanes (createHyperplane env s hyperplane) = generatedHyperplanes s
           \<and> generatedConstraintIndex (genHyperplane hyperplane (currIter s)) = 0
           \<and> numHyperplanesAdded (currIter (createHyperplane env s hyperplane))
               = numHyperplanesAdded (currIter s) + 1
           \<and> totNumHyperplanes (currIter (createHyperplane env s hyperplane))
               = totNumHyperplanes (currIter s) + 1"
  using assms
  by (auto simp: createHyperplane_def genHyperplane_def split: option.splits if_splits)

text \<open>The theorem at a concrete input, where a cut is added.\<close>

theorem createHyperplane_success_no_ledger_entry_witness:
  "lazyConstraints (createHyperplane exCallbackEnv exCallbackState exHyperplane)
     \<noteq> lazyConstraints exCallbackState
   \<and> generatedHyperplanes (createHyperplane exCallbackEnv exCallbackState exHyperplane) = []
   \<and> numHyperplanesAdded (currIter (createHyperplane exCallbackEnv exCallbackState exHyperplane)) = 1"
proof -
  have h: "lazyConstraints (createHyperplane exCallbackEnv exCallbackState exHyperplane)
     \<noteq> lazyConstraints exCallbackState"
    by (simp add: createHyperplane_def exCallbackEnv_def exCallbackState_def exTerms_def dne_self)
  from createHyperplane_success_no_ledger_entry[OF h] h show ?thesis
    by (auto simp: exCallbackState_def exIteration_def)
qed

text \<open>
  Claim C4 as stated fails: a call that adds the cut \<open>2 x\<^sub>0 \<le> 1\<close> leaves the list of
  generated hyperplanes empty, so there is no entry for the cut.
\<close>

theorem createHyperplane_ledger_counterexample:
  "lazyConstraints (createHyperplane exCallbackEnv exCallbackState exHyperplane)
     = [\<lparr> lazyTerms = [(Finite 2, 0)], lazyRhs = Finite 1 \<rparr>]
   \<and> generatedHyperplanes (createHyperplane exCallbackEnv exCallbackState exHyperplane) = []"
  by (simp add: createHyperplane_def exCallbackEnv_def exCallbackState_def exTerms_def dne_self
      hyperplaneConstraint_def)

lemma createHyperplane_taskLog: "taskLog (createHyperplane env s hp) = taskLog s"
  by (simp add: createHyperplane_def split: option.splits)

lemma flushStep_taskLog: "taskLog (flushStep env s hp) = taskLog s"
  by (simp add: flushStep_def createHyperplane_taskLog)

lemma foldl_flushStep_taskLog: "taskLog (foldl (flushStep env) s hps) = taskLog s"
  by (induction hps arbitrary: s) (simp_all add: flushStep_taskLog)

text \<open>
  Claim C8. \<^verbatim>\<open>addLazyConstraint\<close> runs the task that selects hyperplane points and
  after it, exactly when the classification of the objective is above \<open>Quadratic\<close>,
  the objective line search, once and on the candidate points. For a linear or a
  quadratic objective the objective line search is not among the tasks run.
\<close>

theorem addLazyConstraint_objective_pass:
  "taskLog (addLazyConstraint env candidatePoints s) =
     taskLog s
     @ (if cutStrategyIsESH env
        then [UpdateInteriorPoint, SelectHyperplanePointsESH candidatePoints]
        else [SelectHyperplanePointsECP candidatePoints])
     @ (if classRank (objectiveClassification env) > classRank Quadratic
        then [SelectHyperplanePointsByObjectiveLinesearch candidatePoints] else [])
   \<and> (SelectHyperplanePointsByObjectiveLinesearch q
        \<in> set (drop (length (taskLog s)) (taskLog (addLazyConstraint env candidatePoints s)))
      \<longleftrightarrow> q = candidatePoints \<and> classRank (objectiveClassification env) > classRank Quadratic)
   \<and> (objectiveClassification env = Linear \<or> objectiveClassification env = Quadratic
      \<longrightarrow> SelectHyperplanePointsByObjectiveLinesearch q
            \<notin> set (drop (length (taskLog s)) (taskLog (addLazyConstraint env candidatePoints s))))"
proof -
  have 1: "taskLog (addLazyConstraint env candidatePoints s) =
     taskLog s
     @ (if cutStrategyIsESH env
        then [UpdateInteriorPoint, SelectHyperplanePointsESH candidatePoints]
        else [SelectHyperplanePointsECP candidatePoints])
     @ (if classRank (objectiveClassification env) > classRank Quadratic
        then [SelectHyperplanePointsByObjectiveLinesearch candidatePoints] else [])"
    by (simp add: addLazyConstraint_def Let_def foldl_flushStep_taskLog
        runSelectHyperplanePoints_def runSelectByObjectiveLinesearch_def)
  have 2: "SelectHyperplanePointsByObjectiveLinesearch q
        \<in> set (drop (length (taskLog s)) (taskLog (addLazyConstraint env candidatePoints s)))
      \<longleftrightarrow> q = candidatePoints \<and> classRank (objectiveClassification env) > classRank Quadratic"
    unfolding 1 by auto
  have 3: "objectiveClassification env = Linear \<or> objectiveClassification env = Quadratic
      \<longrightarrow> SelectHyperplanePointsByObjectiveLinesearch q
            \<notin> set (drop (length (taskLog s)) (taskLog (addLazyConstraint env candidatePoints s)))"
    unfolding 2 by auto
  from 1 2 3 show ?thesis by blast
qed

text \<open>
  The theorem at two concrete inputs: a nonlinear objective, where the pass runs, and a
  quadratic one, where it does not.
\<close>

theorem addLazyConstraint_objective_pass_witness:
  "taskLog (addLazyConstraint exCallbackEnv [exSolutionPoint (Finite 1)] exCallbackState)
     = [SelectHyperplanePointsECP [exSolutionPoint (Finite 1)],
        SelectHyperplanePointsByObjectiveLinesearch [exSolutionPoint (Finite 1)]]
   \<and> taskLog (addLazyConstraint (exCallbackEnv\<lparr>objectiveClassification := Quadratic\<rparr>)
         [exSolutionPoint (Finite 1)] exCallbackState)
     = [SelectHyperplanePointsECP [exSolutionPoint (Finite 1)]]"
  using addLazyConstraint_objective_pass[of exCallbackEnv "[exSolutionPoint (Finite 1)]" exCallbackState]
    addLazyConstraint_objective_pass[of "exCallbackEnv\<lparr>objectiveClassification := Quadratic\<rparr>"
      "[exSolutionPoint (Finite 1)]" exCallbackState]
  by (simp add: exCallbackEnv_def exCallbackState_def)



section \<open>Properties of \<^verbatim>\<open>solveProblem\<close>\<close>

lemma dualUnboundedIndices_Nil [simp]: "dualUnboundedIndices [] = {}"
  by (simp add: dualUnboundedIndices_def)

lemma dualUnboundedIndices_Cons:
  "dualUnboundedIndices (V # Vs) =
     (if varIsDualUnbounded V \<and> 0 \<le> varIndex V
      then insert (nat (varIndex V)) (dualUnboundedIndices Vs)
      else dualUnboundedIndices Vs)"
  by (auto simp: dualUnboundedIndices_def)

lemma updateVariableBound_bounds:
  "osiColBounds (updateVariableBound i l u s) =
     (if 0 \<le> i \<and> i < int (length (osiColBounds s))
      then (osiColBounds s)[nat i := (l, u)] else osiColBounds s)"
proof (cases "0 \<le> i \<and> i < int (length (osiColBounds s))")
  case False
  then show ?thesis by (auto simp: updateVariableBound_def)
next
  case True
  show ?thesis
  proof (cases "deq (fst (osiColBounds s ! nat i)) l \<and> deq (snd (osiColBounds s ! nat i)) u")
    case eq: True
    then have "osiColBounds s ! nat i = (l, u)"
      by (auto simp: deq_def prod_eq_iff)
    then have "(osiColBounds s)[nat i := (l, u)] = osiColBounds s"
      by (metis list_update_id)
    with True eq show ?thesis by (simp add: updateVariableBound_def Let_def)
  next
    case False
    with True show ?thesis by (auto simp: updateVariableBound_def Let_def setColBounds_def)
  qed
qed

lemma updateVariableBound_numSolves [simp]:
  "numSolves (updateVariableBound i l u s) = numSolves s"
  by (simp add: updateVariableBound_def Let_def setColBounds_def)

lemma tightenVariables_numSolves [simp]:
  "numSolves (snd (tightenVariables Vs (b, s))) = numSolves s"
  by (induction Vs arbitrary: b s) simp_all

lemma restoreVariables_numSolves [simp]:
  "numSolves (restoreVariables Vs s) = numSolves s"
  by (induction Vs arbitrary: s) simp_all

lemma tightenVariables_flag:
  "fst (tightenVariables Vs (b, s)) = (b \<or> (\<exists>V \<in> set Vs. varIsDualUnbounded V))"
  by (induction Vs arbitrary: b s) auto

lemma tightenVariables_bounds:
  "length (osiColBounds (snd (tightenVariables Vs (b, s)))) = length (osiColBounds s)
   \<and> (\<forall>j < length (osiColBounds s).
        osiColBounds (snd (tightenVariables Vs (b, s))) ! j =
          (if j \<in> dualUnboundedIndices Vs then (tightenedLowerBound, tightenedUpperBound)
           else osiColBounds s ! j))"
proof (induction Vs arbitrary: b s)
  case Nil
  then show ?case by simp
next
  case (Cons V Vs)
  show ?case
  proof (cases "varIsDualUnbounded V")
    case False
    with Cons.IH[of b s] show ?thesis by (simp add: dualUnboundedIndices_Cons)
  next
    case True
    let ?s = "updateVariableBound (varIndex V) tightenedLowerBound tightenedUpperBound s"
    from Cons.IH[of True ?s] True show ?thesis
      by (auto simp: dualUnboundedIndices_Cons updateVariableBound_bounds nth_list_update)
  qed
qed

lemma restoreVariables_bounds:
  assumes "\<forall>V \<in> set Vs. varIsDualUnbounded V \<longrightarrow>
             0 \<le> varIndex V \<and> varIndex V < int (length bs0)
             \<and> bs0 ! nat (varIndex V) = (varLowerBound V, varUpperBound V)"
    and "length (osiColBounds s) = length bs0"
  shows "length (osiColBounds (restoreVariables Vs s)) = length bs0
   \<and> (\<forall>j < length bs0.
        osiColBounds (restoreVariables Vs s) ! j =
          (if j \<in> dualUnboundedIndices Vs then bs0 ! j else osiColBounds s ! j))"
  using assms
proof (induction Vs arbitrary: s)
  case Nil
  then show ?case by simp
next
  case (Cons V Vs)
  show ?case
  proof (cases "varIsDualUnbounded V")
    case False
    with Cons.IH[of s] Cons.prems show ?thesis by (simp add: dualUnboundedIndices_Cons)
  next
    case True
    let ?s = "updateVariableBound (varIndex V) (varLowerBound V) (varUpperBound V) s"
    from Cons.prems True have r: "0 \<le> varIndex V" "varIndex V < int (length bs0)"
      "bs0 ! nat (varIndex V) = (varLowerBound V, varUpperBound V)"
      by simp_all
    have len: "length (osiColBounds ?s) = length bs0"
      using Cons.prems(2) by (simp add: updateVariableBound_bounds)
    from Cons.prems(1) have "\<forall>V \<in> set Vs. varIsDualUnbounded V \<longrightarrow>
             0 \<le> varIndex V \<and> varIndex V < int (length bs0)
             \<and> bs0 ! nat (varIndex V) = (varLowerBound V, varUpperBound V)"
      by simp
    from Cons.IH[OF this len] True r Cons.prems(2) show ?thesis
      by (auto simp: dualUnboundedIndices_Cons updateVariableBound_bounds nth_list_update)
  qed
qed

lemma tighten_then_restore:
  assumes "\<forall>V \<in> set Vs. varIsDualUnbounded V \<longrightarrow>
             0 \<le> varIndex V \<and> varIndex V < int (length (osiColBounds s))
             \<and> osiColBounds s ! nat (varIndex V) = (varLowerBound V, varUpperBound V)"
    and "osiColBounds s2 = osiColBounds (snd (tightenVariables Vs (b, s)))"
  shows "osiColBounds (restoreVariables Vs s2) = osiColBounds s"
proof (rule nth_equalityI)
  have len2: "length (osiColBounds s2) = length (osiColBounds s)"
    using assms(2) tightenVariables_bounds[of Vs b s] by simp
  from restoreVariables_bounds[OF assms(1) len2]
  show "length (osiColBounds (restoreVariables Vs s2)) = length (osiColBounds s)" by simp
  fix j assume "j < length (osiColBounds (restoreVariables Vs s2))"
  with restoreVariables_bounds[OF assms(1) len2]
  have j: "j < length (osiColBounds s)" by simp
  with restoreVariables_bounds[OF assms(1) len2] tightenVariables_bounds[of Vs b s] assms(2)
  show "osiColBounds (restoreVariables Vs s2) ! j = osiColBounds s ! j"
    by simp
qed

lemma firstSolve_Inr:
  "solve (osiColBounds s) (numSolves s) = Inr status \<Longrightarrow>
     firstSolve solve s = (status, s\<lparr>numSolves := numSolves s + 1\<rparr>)"
  by (simp add: firstSolve_def)

lemma restoreVariables_bounds_general:
  "length (osiColBounds (restoreVariables Vs s)) = length (osiColBounds s)
   \<and> (\<forall>j < length (osiColBounds s).
        (j \<notin> dualUnboundedIndices Vs \<longrightarrow>
           osiColBounds (restoreVariables Vs s) ! j = osiColBounds s ! j)
        \<and> (j \<in> dualUnboundedIndices Vs \<longrightarrow>
             (\<exists>V \<in> set Vs. varIsDualUnbounded V \<and> 0 \<le> varIndex V \<and> nat (varIndex V) = j
                \<and> osiColBounds (restoreVariables Vs s) ! j = (varLowerBound V, varUpperBound V))))"
proof (induction Vs arbitrary: s)
  case Nil
  then show ?case by simp
next
  case (Cons V Vs)
  show ?case
  proof (cases "varIsDualUnbounded V")
    case False
    with Cons.IH[of s] show ?thesis by (auto simp: dualUnboundedIndices_Cons)
  next
    case True
    let ?s = "updateVariableBound (varIndex V) (varLowerBound V) (varUpperBound V) s"
    have len: "length (osiColBounds ?s) = length (osiColBounds s)"
      by (simp add: updateVariableBound_bounds)
    have res: "restoreVariables (V # Vs) s = restoreVariables Vs ?s"
      using True by simp
    show ?thesis
    proof (intro conjI allI impI)
      show "length (osiColBounds (restoreVariables (V # Vs) s)) = length (osiColBounds s)"
        using Cons.IH[of ?s] len res by simp
    next
      fix j assume j: "j < length (osiColBounds s)" and n: "j \<notin> dualUnboundedIndices (V # Vs)"
      from n True have n1: "j \<notin> dualUnboundedIndices Vs" and n2: "0 \<le> varIndex V \<longrightarrow> j \<noteq> nat (varIndex V)"
        by (auto simp: dualUnboundedIndices_Cons split: if_splits)
      from Cons.IH[of ?s] j len n1
      have "osiColBounds (restoreVariables Vs ?s) ! j = osiColBounds ?s ! j" by simp
      also have "osiColBounds ?s ! j = osiColBounds s ! j"
        using n2 j by (auto simp: updateVariableBound_bounds nth_list_update)
      finally show "osiColBounds (restoreVariables (V # Vs) s) ! j = osiColBounds s ! j"
        using res by simp
    next
      fix j assume j: "j < length (osiColBounds s)" and m: "j \<in> dualUnboundedIndices (V # Vs)"
      show "\<exists>W \<in> set (V # Vs). varIsDualUnbounded W \<and> 0 \<le> varIndex W \<and> nat (varIndex W) = j
              \<and> osiColBounds (restoreVariables (V # Vs) s) ! j = (varLowerBound W, varUpperBound W)"
      proof (cases "j \<in> dualUnboundedIndices Vs")
        case True
        with Cons.IH[of ?s] j len res show ?thesis by auto
      next
        case False
        with m have v: "0 \<le> varIndex V" "j = nat (varIndex V)"
          by (auto simp: dualUnboundedIndices_Cons split: if_splits)
        from Cons.IH[of ?s] j len False
        have "osiColBounds (restoreVariables Vs ?s) ! j = osiColBounds ?s ! j" by simp
        also have "osiColBounds ?s ! j = (varLowerBound V, varUpperBound V)"
          using v j by (auto simp: updateVariableBound_bounds)
        finally show ?thesis using res v True by auto
      qed
    qed
  qed
qed

lemma dualUnboundedIndices_iff:
  "(j \<notin> dualUnboundedIndices Vs) = (\<forall>V \<in> set Vs. varIsDualUnbounded V \<longrightarrow> varIndex V \<noteq> int j)"
  by (auto simp: dualUnboundedIndices_def)

text \<open>
  Claim C7, as the code has it. Let the first solve report an unbounded problem, the
  objective be linear or quadratic and dual unbounded, and some variable be dual
  unbounded. Then \<^verbatim>\<open>solveProblem\<close> gives every dual-unbounded variable the bounds
  \<open>\<plusminus>1e50/10e30\<close> and leaves the other columns, solves once more on these bounds, and,
  whatever status that solve reports, ends with every dual-unbounded variable at the
  bounds that the variable itself carries (where several variables share an index, at
  those of one of them) and with the other columns as they were. If before the retry
  the solver held, for each of these variables, the bounds the variable carries, the
  bounds after \<^verbatim>\<open>solveProblem\<close> are the bounds before it.
\<close>

theorem solveProblem_unbounded_retry_restores:
  assumes first: "solve (osiColBounds s) (numSolves s) = Inr Unbounded"
    and cls: "objClassification prob = Linear \<or> objClassification prob = Quadratic"
    and obj: "objIsDualUnbounded prob"
    and ex: "\<exists>V \<in> set (allVariables prob). varIsDualUnbounded V"
    and re: "solve (osiColBounds (snd (tightenVariables (allVariables prob) (False, s))))
               (numSolves s + 1) = Inr status"
  shows "\<exists>s'. solveProblem prob solve s = Inr (status, s')
           \<and> numSolves s' = numSolves s + 2
           \<and> length (osiColBounds s') = length (osiColBounds s)
           \<and> (\<forall>V \<in> set (allVariables prob).
                 varIsDualUnbounded V \<and> 0 \<le> varIndex V
                 \<and> varIndex V < int (length (osiColBounds s)) \<longrightarrow>
                   osiColBounds (snd (tightenVariables (allVariables prob) (False, s)))
                     ! nat (varIndex V) = (tightenedLowerBound, tightenedUpperBound)
                   \<and> (\<exists>W \<in> set (allVariables prob).
                         varIsDualUnbounded W \<and> varIndex W = varIndex V
                         \<and> osiColBounds s' ! nat (varIndex V) = (varLowerBound W, varUpperBound W))
                   \<and> (distinct (map varIndex (filter varIsDualUnbounded (allVariables prob))) \<longrightarrow>
                         osiColBounds s' ! nat (varIndex V) = (varLowerBound V, varUpperBound V)))
           \<and> (\<forall>j < length (osiColBounds s).
                 (\<forall>V \<in> set (allVariables prob). varIsDualUnbounded V \<longrightarrow> varIndex V \<noteq> int j) \<longrightarrow>
                   osiColBounds (snd (tightenVariables (allVariables prob) (False, s))) ! j
                     = osiColBounds s ! j
                   \<and> osiColBounds s' ! j = osiColBounds s ! j)
           \<and> ((\<forall>V \<in> set (allVariables prob). varIsDualUnbounded V \<longrightarrow>
                  0 \<le> varIndex V \<and> varIndex V < int (length (osiColBounds s))
                  \<and> osiColBounds s ! nat (varIndex V) = (varLowerBound V, varUpperBound V))
                \<longrightarrow> osiColBounds s' = osiColBounds s)"
proof -
  let ?Vs = "allVariables prob"
  let ?s0 = "s\<lparr>numSolves := numSolves s + 1\<rparr>"
  let ?bs1 = "osiColBounds (snd (tightenVariables ?Vs (False, s)))"
  obtain b s1 where t: "tightenVariables ?Vs (False, ?s0) = (b, s1)"
    by (cases "tightenVariables ?Vs (False, ?s0)") auto
  have b: "b" using tightenVariables_flag[of ?Vs False ?s0] t ex by simp
  have T: "length ?bs1 = length (osiColBounds s)"
    "\<forall>j < length (osiColBounds s). ?bs1 ! j =
        (if j \<in> dualUnboundedIndices ?Vs then (tightenedLowerBound, tightenedUpperBound)
         else osiColBounds s ! j)"
    using tightenVariables_bounds[of ?Vs False s] by simp_all
  have bs1: "osiColBounds s1 = ?bs1"
  proof (rule nth_equalityI)
    show "length (osiColBounds s1) = length ?bs1"
      using tightenVariables_bounds[of ?Vs False ?s0] T(1) t by simp
    fix j assume "j < length (osiColBounds s1)"
    then have "j < length (osiColBounds s)"
      using tightenVariables_bounds[of ?Vs False ?s0] t by simp
    then show "osiColBounds s1 ! j = ?bs1 ! j"
      using tightenVariables_bounds[of ?Vs False ?s0] T(2) t by simp
  qed
  have "numSolves (snd (b, s1)) = numSolves ?s0"
    unfolding t[symmetric] by simp
  then have n1: "numSolves s1 = numSolves s + 1" by simp
  let ?s2 = "s1\<lparr>numSolves := numSolves s1 + 1\<rparr>"
  let ?s' = "(restoreVariables ?Vs ?s2)\<lparr>hasInfeasibilityRepairBeenPerformed := True\<rparr>"
  have rs: "reSolve solve s1 = Inr (status, ?s2)"
    using re bs1 n1 by (simp add: reSolve_def)
  have ut: "unboundedTighten prob ?s0 = (b, s1)"
    using cls obj t by (auto simp: unboundedTighten_def)
  have inf: "infeasibleRetry prob solve (Unbounded, ?s0) = Inr (Unbounded, ?s0)"
    by (simp add: infeasibleRetry_def)
  have res: "solveProblem prob solve s = Inr (status, ?s')"
    using firstSolve_Inr[of solve s Unbounded, OF first] inf ut b rs
    by (simp add: solveProblem_def unboundedRetry_def)
  have s2: "osiColBounds ?s2 = ?bs1" using bs1 by simp
  have ns: "numSolves ?s' = numSolves s + 2" using n1 by simp
  have R: "length (osiColBounds ?s') = length (osiColBounds s)"
    "\<forall>j < length (osiColBounds s).
        (j \<notin> dualUnboundedIndices ?Vs \<longrightarrow> osiColBounds ?s' ! j = ?bs1 ! j)
        \<and> (j \<in> dualUnboundedIndices ?Vs \<longrightarrow>
             (\<exists>V \<in> set ?Vs. varIsDualUnbounded V \<and> 0 \<le> varIndex V \<and> nat (varIndex V) = j
                \<and> osiColBounds ?s' ! j = (varLowerBound V, varUpperBound V)))"
    using restoreVariables_bounds_general[of ?Vs ?s2] s2 T(1) by simp_all
  have vars: "\<forall>V \<in> set ?Vs.
                 varIsDualUnbounded V \<and> 0 \<le> varIndex V
                 \<and> varIndex V < int (length (osiColBounds s)) \<longrightarrow>
                   ?bs1 ! nat (varIndex V) = (tightenedLowerBound, tightenedUpperBound)
                   \<and> (\<exists>W \<in> set ?Vs.
                         varIsDualUnbounded W \<and> varIndex W = varIndex V
                         \<and> osiColBounds ?s' ! nat (varIndex V) = (varLowerBound W, varUpperBound W))
                   \<and> (distinct (map varIndex (filter varIsDualUnbounded ?Vs)) \<longrightarrow>
                         osiColBounds ?s' ! nat (varIndex V) = (varLowerBound V, varUpperBound V))"
  proof (intro ballI impI)
    fix V assume V: "V \<in> set ?Vs"
      and h: "varIsDualUnbounded V \<and> 0 \<le> varIndex V \<and> varIndex V < int (length (osiColBounds s))"
    let ?j = "nat (varIndex V)"
    from h have j: "?j < length (osiColBounds s)" by linarith
    from V h have m: "?j \<in> dualUnboundedIndices ?Vs"
      by (auto simp: dualUnboundedIndices_def)
    from T(2) j m have 1: "?bs1 ! ?j = (tightenedLowerBound, tightenedUpperBound)" by simp
    from R(2) j m obtain W where W: "W \<in> set ?Vs" "varIsDualUnbounded W" "0 \<le> varIndex W"
      "nat (varIndex W) = ?j" "osiColBounds ?s' ! ?j = (varLowerBound W, varUpperBound W)"
      by blast
    from h have "0 \<le> varIndex V" by simp
    with W(3,4) have same: "varIndex W = varIndex V" by (metis int_nat_eq)
    have 2: "\<exists>W \<in> set ?Vs. varIsDualUnbounded W \<and> varIndex W = varIndex V
               \<and> osiColBounds ?s' ! ?j = (varLowerBound W, varUpperBound W)"
      using W same by blast
    have 3: "distinct (map varIndex (filter varIsDualUnbounded ?Vs)) \<longrightarrow>
               osiColBounds ?s' ! ?j = (varLowerBound V, varUpperBound V)"
    proof
      assume "distinct (map varIndex (filter varIsDualUnbounded ?Vs))"
      then have "inj_on varIndex (set (filter varIsDualUnbounded ?Vs))"
        by (simp add: distinct_map)
      moreover have "V \<in> set (filter varIsDualUnbounded ?Vs)" "W \<in> set (filter varIsDualUnbounded ?Vs)"
        using V h W by simp_all
      ultimately have "W = V" using same by (auto dest: inj_onD)
      with W(5) show "osiColBounds ?s' ! ?j = (varLowerBound V, varUpperBound V)" by simp
    qed
    from 1 2 3 show "?bs1 ! ?j = (tightenedLowerBound, tightenedUpperBound)
                   \<and> (\<exists>W \<in> set ?Vs.
                         varIsDualUnbounded W \<and> varIndex W = varIndex V
                         \<and> osiColBounds ?s' ! ?j = (varLowerBound W, varUpperBound W))
                   \<and> (distinct (map varIndex (filter varIsDualUnbounded ?Vs)) \<longrightarrow>
                         osiColBounds ?s' ! ?j = (varLowerBound V, varUpperBound V))"
      by blast
  qed
  have others: "\<forall>j < length (osiColBounds s).
                 (\<forall>V \<in> set ?Vs. varIsDualUnbounded V \<longrightarrow> varIndex V \<noteq> int j) \<longrightarrow>
                   ?bs1 ! j = osiColBounds s ! j \<and> osiColBounds ?s' ! j = osiColBounds s ! j"
    using T(2) R(2) by (simp add: dualUnboundedIndices_iff[symmetric])
  have agree: "(\<forall>V \<in> set ?Vs. varIsDualUnbounded V \<longrightarrow>
                  0 \<le> varIndex V \<and> varIndex V < int (length (osiColBounds s))
                  \<and> osiColBounds s ! nat (varIndex V) = (varLowerBound V, varUpperBound V))
                \<longrightarrow> osiColBounds ?s' = osiColBounds s"
  proof
    assume a: "\<forall>V \<in> set ?Vs. varIsDualUnbounded V \<longrightarrow>
                  0 \<le> varIndex V \<and> varIndex V < int (length (osiColBounds s))
                  \<and> osiColBounds s ! nat (varIndex V) = (varLowerBound V, varUpperBound V)"
    from tighten_then_restore[OF a s2] show "osiColBounds ?s' = osiColBounds s" by simp
  qed
  from res ns R(1) vars others agree show ?thesis by blast
qed

lemma exCbcState_bounds:
  "osiColBounds (exCbcState (Finite (- 3)) (Finite 7)) = [(Finite (- 3), Finite 7)]"
  "numSolves (exCbcState l u) = 0"
  by (simp_all add: exCbcState_def finalizeProblem_def addVariable_def addVariable_try_def
      neverThrows_def Let_def initializeProblem_def getUnboundedVariableBoundValue_def dgt_def)

lemma exCbcStateHeld_bounds:
  "osiColBounds (updateVariableBound 0 (Finite 0) (Finite 10) (exCbcState (Finite (- 3)) (Finite 7)))
     = [(Finite 0, Finite 10)]"
  using exCbcState_bounds(1) by (simp add: updateVariableBound_bounds)

text \<open>
  The theorem at a concrete input: one variable that carries the bounds \<open>-3\<close> and
  \<open>7\<close>, which the solver holds; they are tightened for the re-solve and are back
  afterwards.
\<close>

theorem solveProblem_unbounded_retry_restores_witness:
  "resultBounds (solveProblem (exCbcProblem Linear (Finite (- 3)) (Finite 7))
      alwaysUnbounded (exCbcState (Finite (- 3)) (Finite 7)))
     = Some (Unbounded, [(Finite (- 3), Finite 7)])
   \<and> osiColBounds (exCbcState (Finite (- 3)) (Finite 7)) = [(Finite (- 3), Finite 7)]
   \<and> osiColBounds (snd (tightenVariables (allVariables (exCbcProblem Linear (Finite (- 3)) (Finite 7)))
        (False, exCbcState (Finite (- 3)) (Finite 7)))) ! 0
     = (tightenedLowerBound, tightenedUpperBound)"
proof -
  let ?s = "exCbcState (Finite (- 3)) (Finite 7)"
  let ?p = "exCbcProblem Linear (Finite (- 3)) (Finite 7)"
  let ?V = "\<lparr> varIndex = 0, varLowerBound = Finite (- 3), varUpperBound = Finite 7,
               varIsDualUnbounded = True \<rparr>"
  have 1: "alwaysUnbounded (osiColBounds ?s) (numSolves ?s) = Inr Unbounded"
    by (simp add: alwaysUnbounded_def)
  have 2: "objClassification ?p = Linear \<or> objClassification ?p = Quadratic"
    by (simp add: exCbcProblem_def)
  have 3: "objIsDualUnbounded ?p" by (simp add: exCbcProblem_def)
  have 4: "\<exists>V \<in> set (allVariables ?p). varIsDualUnbounded V" by (simp add: exCbcProblem_def)
  have 5: "alwaysUnbounded (osiColBounds (snd (tightenVariables (allVariables ?p) (False, ?s))))
               (numSolves ?s + 1) = Inr Unbounded"
    by (simp add: alwaysUnbounded_def)
  have v: "?V \<in> set (allVariables ?p)" by (simp add: exCbcProblem_def)
  have a: "\<forall>V \<in> set (allVariables ?p). varIsDualUnbounded V \<longrightarrow>
             0 \<le> varIndex V \<and> varIndex V < int (length (osiColBounds ?s))
             \<and> osiColBounds ?s ! nat (varIndex V) = (varLowerBound V, varUpperBound V)"
    using exCbcState_bounds(1) by (simp add: exCbcProblem_def)
  have r: "varIsDualUnbounded ?V \<and> 0 \<le> varIndex ?V
             \<and> varIndex ?V < int (length (osiColBounds ?s))"
    using exCbcState_bounds(1) by simp
  from solveProblem_unbounded_retry_restores[OF 1 2 3 4 5] obtain s' where
    s': "solveProblem ?p alwaysUnbounded ?s = Inr (Unbounded, s')"
    and t: "\<forall>V \<in> set (allVariables ?p).
                 varIsDualUnbounded V \<and> 0 \<le> varIndex V
                 \<and> varIndex V < int (length (osiColBounds ?s)) \<longrightarrow>
                   osiColBounds (snd (tightenVariables (allVariables ?p) (False, ?s)))
                     ! nat (varIndex V) = (tightenedLowerBound, tightenedUpperBound)"
    and e: "(\<forall>V \<in> set (allVariables ?p). varIsDualUnbounded V \<longrightarrow>
                  0 \<le> varIndex V \<and> varIndex V < int (length (osiColBounds ?s))
                  \<and> osiColBounds ?s ! nat (varIndex V) = (varLowerBound V, varUpperBound V))
                \<longrightarrow> osiColBounds s' = osiColBounds ?s"
    by blast
  from e a have "osiColBounds s' = osiColBounds ?s" by blast
  moreover from t v r have "osiColBounds (snd (tightenVariables (allVariables ?p) (False, ?s)))
                     ! nat (varIndex ?V) = (tightenedLowerBound, tightenedUpperBound)"
    by blast
  ultimately show ?thesis
    using s' exCbcState_bounds(1) by (simp add: resultBounds_def)
qed

text \<open>
  Claim C7 as stated fails: the variable carries the bounds \<open>-3\<close> and \<open>7\<close>, and the
  solver holds \<open>0\<close> and \<open>10\<close> for it, set by \<^verbatim>\<open>updateVariableBound\<close>; after the retry
  the solver holds \<open>-3\<close> and \<open>7\<close>, not the bounds it held before.
\<close>

theorem solveProblem_unbounded_retry_counterexample:
  "osiColBounds (updateVariableBound 0 (Finite 0) (Finite 10) (exCbcState (Finite (- 3)) (Finite 7)))
     = [(Finite 0, Finite 10)]
   \<and> resultBounds (solveProblem (exCbcProblem Linear (Finite (- 3)) (Finite 7)) alwaysUnbounded
        (updateVariableBound 0 (Finite 0) (Finite 10) (exCbcState (Finite (- 3)) (Finite 7))))
     = Some (Unbounded, [(Finite (- 3), Finite 7)])"
  using exCbcStateHeld_bounds
  by (simp add: exCbcState_bounds(2) resultBounds_def solveProblem_def firstSolve_def
      alwaysUnbounded_def infeasibleRetry_def unboundedRetry_def unboundedTighten_def
      exCbcProblem_def updateVariableBound_bounds reSolve_def)

text \<open>
  For a nonlinear objective the retry tightens the bounds of the auxiliary objective
  variable. The loop after the re-solve goes over the variables of the problem only: the
  auxiliary variable, here column 1 and not one of them, stays at \<open>\<plusminus>1e19\<close>.
\<close>

lemma solveProblem_unbounded_auxiliary_not_restored:
  "resultBounds (solveProblem
        ((exCbcProblem Nonlinear (Finite (- 3)) (Finite 7))\<lparr>dualAuxiliaryObjectiveVariableIndex := 1\<rparr>)
        alwaysUnbounded
        ((exCbcState (Finite (- 3)) (Finite 7))
           \<lparr>osiColBounds := [(Finite (- 3), Finite 7), (Finite (- 100), Finite 100)]\<rparr>))
     = Some (Unbounded, [(Finite (- 3), Finite 7), (Finite (- (10 ^ 19)), Finite (10 ^ 19))])"
  by (simp add: exCbcState_bounds(2) resultBounds_def solveProblem_def
      firstSolve_def alwaysUnbounded_def infeasibleRetry_def unboundedRetry_def
      unboundedTighten_def exCbcProblem_def updateVariableBound_bounds reSolve_def
      tightenedLowerBound_def tightenedUpperBound_def getUnboundedVariableBoundValue_def)

section \<open>What the steps of the callback leave unchanged\<close>

lemma foldl_field:
  assumes "\<And>s x. g (f s x) = g s"
  shows "g (foldl f s xs) = g s"
  by (induction xs arbitrary: s) (simp_all add: assms)

lemma addDualSolutionCandidate_fields [simp]:
  "solutionsSet (addDualSolutionCandidate env sol s) = solutionsSet s"
  "tmpVals (addDualSolutionCandidate env sol s) = tmpVals s"
  "lastUpdatedPrimal (addDualSolutionCandidate env sol s) = lastUpdatedPrimal s"
  "primalBound (addDualSolutionCandidate env sol s) = primalBound s"
  "primalSolutionCandidates (addDualSolutionCandidate env sol s) = primalSolutionCandidates s"
  "lazyConstraints (addDualSolutionCandidate env sol s) = lazyConstraints s"
  "hyperplaneWaitingList (addDualSolutionCandidate env sol s) = hyperplaneWaitingList s"
  "taskLog (addDualSolutionCandidate env sol s) = taskLog s"
  "currIter (addDualSolutionCandidate env sol s) = currIter s"
  by (simp_all add: addDualSolutionCandidate_def)

lemma addPrimalSolutionCandidate_fields [simp]:
  "solutionsSet (addPrimalSolutionCandidate env src s pt) = solutionsSet s"
  "tmpVals (addPrimalSolutionCandidate env src s pt) = tmpVals s"
  "lastUpdatedPrimal (addPrimalSolutionCandidate env src s pt) = lastUpdatedPrimal s"
  "dualBound (addPrimalSolutionCandidate env src s pt) = dualBound s"
  "dualSolutionCandidates (addPrimalSolutionCandidate env src s pt) = dualSolutionCandidates s"
  "lazyConstraints (addPrimalSolutionCandidate env src s pt) = lazyConstraints s"
  "hyperplaneWaitingList (addPrimalSolutionCandidate env src s pt) = hyperplaneWaitingList s"
  "taskLog (addPrimalSolutionCandidate env src s pt) = taskLog s"
  "currIter (addPrimalSolutionCandidate env src s pt) = currIter s"
  by (simp_all add: addPrimalSolutionCandidate_def Let_def)

lemma createIteration_fields [simp]:
  "solutionsSet (createIteration s) = solutionsSet s"
  "tmpVals (createIteration s) = tmpVals s"
  "lastUpdatedPrimal (createIteration s) = lastUpdatedPrimal s"
  "dualBound (createIteration s) = dualBound s"
  "dualSolutionCandidates (createIteration s) = dualSolutionCandidates s"
  "primalBound (createIteration s) = primalBound s"
  "primalSolutionCandidates (createIteration s) = primalSolutionCandidates s"
  "lazyConstraints (createIteration s) = lazyConstraints s"
  "hyperplaneWaitingList (createIteration s) = hyperplaneWaitingList s"
  "taskLog (createIteration s) = taskLog s"
  by (simp_all add: createIteration_def)

lemma createHyperplane_fields [simp]:
  "solutionsSet (createHyperplane env s hp) = solutionsSet s"
  "tmpVals (createHyperplane env s hp) = tmpVals s"
  "lastUpdatedPrimal (createHyperplane env s hp) = lastUpdatedPrimal s"
  "dualBound (createHyperplane env s hp) = dualBound s"
  "dualSolutionCandidates (createHyperplane env s hp) = dualSolutionCandidates s"
  "primalBound (createHyperplane env s hp) = primalBound s"
  "primalSolutionCandidates (createHyperplane env s hp) = primalSolutionCandidates s"
  by (simp_all add: createHyperplane_def split: option.splits)

lemma flushStep_fields [simp]:
  "solutionsSet (flushStep env s hp) = solutionsSet s"
  "tmpVals (flushStep env s hp) = tmpVals s"
  "lastUpdatedPrimal (flushStep env s hp) = lastUpdatedPrimal s"
  "dualBound (flushStep env s hp) = dualBound s"
  "dualSolutionCandidates (flushStep env s hp) = dualSolutionCandidates s"
  "primalBound (flushStep env s hp) = primalBound s"
  "primalSolutionCandidates (flushStep env s hp) = primalSolutionCandidates s"
  by (simp_all add: flushStep_def)

lemma createIntegerCut_fields [simp]:
  "solutionsSet (createIntegerCut env s ic) = solutionsSet s"
  "tmpVals (createIntegerCut env s ic) = tmpVals s"
  "lastUpdatedPrimal (createIntegerCut env s ic) = lastUpdatedPrimal s"
  "dualBound (createIntegerCut env s ic) = dualBound s"
  "dualSolutionCandidates (createIntegerCut env s ic) = dualSolutionCandidates s"
  "primalBound (createIntegerCut env s ic) = primalBound s"
  "primalSolutionCandidates (createIntegerCut env s ic) = primalSolutionCandidates s"
  by (simp_all add: createIntegerCut_def)

lemma runSelectHyperplanePoints_fields [simp]:
  "solutionsSet (runSelectHyperplanePoints env pts s) = solutionsSet s"
  "tmpVals (runSelectHyperplanePoints env pts s) = tmpVals s"
  "lastUpdatedPrimal (runSelectHyperplanePoints env pts s) = lastUpdatedPrimal s"
  "dualBound (runSelectHyperplanePoints env pts s) = dualBound s"
  "dualSolutionCandidates (runSelectHyperplanePoints env pts s) = dualSolutionCandidates s"
  "primalBound (runSelectHyperplanePoints env pts s) = primalBound s"
  "primalSolutionCandidates (runSelectHyperplanePoints env pts s) = primalSolutionCandidates s"
  "lazyConstraints (runSelectHyperplanePoints env pts s) = lazyConstraints s"
  "currIter (runSelectHyperplanePoints env pts s) = currIter s"
  by (simp_all add: runSelectHyperplanePoints_def)

lemma runSelectByObjectiveLinesearch_fields [simp]:
  "solutionsSet (runSelectByObjectiveLinesearch env pts s) = solutionsSet s"
  "tmpVals (runSelectByObjectiveLinesearch env pts s) = tmpVals s"
  "lastUpdatedPrimal (runSelectByObjectiveLinesearch env pts s) = lastUpdatedPrimal s"
  "dualBound (runSelectByObjectiveLinesearch env pts s) = dualBound s"
  "dualSolutionCandidates (runSelectByObjectiveLinesearch env pts s) = dualSolutionCandidates s"
  "primalBound (runSelectByObjectiveLinesearch env pts s) = primalBound s"
  "primalSolutionCandidates (runSelectByObjectiveLinesearch env pts s) = primalSolutionCandidates s"
  by (simp_all add: runSelectByObjectiveLinesearch_def)

lemma flush_fields [simp]:
  "solutionsSet (foldl (flushStep env) s hps) = solutionsSet s"
  "tmpVals (foldl (flushStep env) s hps) = tmpVals s"
  "lastUpdatedPrimal (foldl (flushStep env) s hps) = lastUpdatedPrimal s"
  "dualBound (foldl (flushStep env) s hps) = dualBound s"
  "dualSolutionCandidates (foldl (flushStep env) s hps) = dualSolutionCandidates s"
  "primalBound (foldl (flushStep env) s hps) = primalBound s"
  "primalSolutionCandidates (foldl (flushStep env) s hps) = primalSolutionCandidates s"
  by (rule foldl_field, simp)+

lemma addLazyConstraint_fields [simp]:
  "solutionsSet (addLazyConstraint env pts s) = solutionsSet s"
  "tmpVals (addLazyConstraint env pts s) = tmpVals s"
  "lastUpdatedPrimal (addLazyConstraint env pts s) = lastUpdatedPrimal s"
  "dualBound (addLazyConstraint env pts s) = dualBound s"
  "dualSolutionCandidates (addLazyConstraint env pts s) = dualSolutionCandidates s"
  "primalBound (addLazyConstraint env pts s) = primalBound s"
  "primalSolutionCandidates (addLazyConstraint env pts s) = primalSolutionCandidates s"
  by (simp_all add: addLazyConstraint_def Let_def)

lemma cbDualBound_fields [simp]:
  "solutionsSet (cbDualBound env ev s) = solutionsSet s"
  "tmpVals (cbDualBound env ev s) = tmpVals s"
  "lastUpdatedPrimal (cbDualBound env ev s) = lastUpdatedPrimal s"
  "primalBound (cbDualBound env ev s) = primalBound s"
  "primalSolutionCandidates (cbDualBound env ev s) = primalSolutionCandidates s"
  "lazyConstraints (cbDualBound env ev s) = lazyConstraints s"
  "hyperplaneWaitingList (cbDualBound env ev s) = hyperplaneWaitingList s"
  "taskLog (cbDualBound env ev s) = taskLog s"
  "currIter (cbDualBound env ev s) = currIter s"
  by (simp_all add: cbDualBound_def Let_def)

lemma cbPrimalSolution_fields [simp]:
  "solutionsSet (cbPrimalSolution env ev s) = solutionsSet s"
  "tmpVals (cbPrimalSolution env ev s) = tmpVals s"
  "lastUpdatedPrimal (cbPrimalSolution env ev s) = lastUpdatedPrimal s"
  "dualBound (cbPrimalSolution env ev s) = dualBound s"
  "dualSolutionCandidates (cbPrimalSolution env ev s) = dualSolutionCandidates s"
  "lazyConstraints (cbPrimalSolution env ev s) = lazyConstraints s"
  "hyperplaneWaitingList (cbPrimalSolution env ev s) = hyperplaneWaitingList s"
  "taskLog (cbPrimalSolution env ev s) = taskLog s"
  "currIter (cbPrimalSolution env ev s) = currIter s"
  by (simp_all add: cbPrimalSolution_def Let_def)

lemma cbRelaxationNode_fields [simp]:
  "solutionsSet (cbRelaxationNode env ev s) = solutionsSet s"
  "tmpVals (cbRelaxationNode env ev s) = tmpVals s"
  "lastUpdatedPrimal (cbRelaxationNode env ev s) = lastUpdatedPrimal s"
  "dualBound (cbRelaxationNode env ev s) = dualBound s"
  "dualSolutionCandidates (cbRelaxationNode env ev s) = dualSolutionCandidates s"
  "primalBound (cbRelaxationNode env ev s) = primalBound s"
  "primalSolutionCandidates (cbRelaxationNode env ev s) = primalSolutionCandidates s"
  "lazyConstraints (cbRelaxationNode env ev s) = lazyConstraints s"
  by (simp_all add: cbRelaxationNode_def Let_def)

lemma primalFold_fields [simp]:
  "solutionsSet (foldl (addPrimalSolutionCandidate env src) s pts) = solutionsSet s"
  "tmpVals (foldl (addPrimalSolutionCandidate env src) s pts) = tmpVals s"
  "lastUpdatedPrimal (foldl (addPrimalSolutionCandidate env src) s pts) = lastUpdatedPrimal s"
  "dualBound (foldl (addPrimalSolutionCandidate env src) s pts) = dualBound s"
  "dualSolutionCandidates (foldl (addPrimalSolutionCandidate env src) s pts) = dualSolutionCandidates s"
  by (rule foldl_field, simp)+

lemma runPrimalLinesearch_fields [simp]:
  "solutionsSet (runPrimalLinesearch env pts s) = solutionsSet s"
  "tmpVals (runPrimalLinesearch env pts s) = tmpVals s"
  "lastUpdatedPrimal (runPrimalLinesearch env pts s) = lastUpdatedPrimal s"
  "dualBound (runPrimalLinesearch env pts s) = dualBound s"
  "dualSolutionCandidates (runPrimalLinesearch env pts s) = dualSolutionCandidates s"
  by (simp_all add: runPrimalLinesearch_def)

lemma runFixedNLP_fields [simp]:
  "solutionsSet (runFixedNLP env pt s) = solutionsSet s"
  "tmpVals (runFixedNLP env pt s) = tmpVals s"
  "lastUpdatedPrimal (runFixedNLP env pt s) = lastUpdatedPrimal s"
  "dualBound (runFixedNLP env pt s) = dualBound s"
  "dualSolutionCandidates (runFixedNLP env pt s) = dualSolutionCandidates s"
  by (simp_all add: runFixedNLP_def)

lemma integerCutFold_fields [simp]:
  "solutionsSet (foldl (createIntegerCut env) s ics) = solutionsSet s"
  "tmpVals (foldl (createIntegerCut env) s ics) = tmpVals s"
  "lastUpdatedPrimal (foldl (createIntegerCut env) s ics) = lastUpdatedPrimal s"
  "dualBound (foldl (createIntegerCut env) s ics) = dualBound s"
  "dualSolutionCandidates (foldl (createIntegerCut env) s ics) = dualSolutionCandidates s"
  "primalBound (foldl (createIntegerCut env) s ics) = primalBound s"
  "primalSolutionCandidates (foldl (createIntegerCut env) s ics) = primalSolutionCandidates s"
  by (rule foldl_field, simp)+

lemma flushIntegerCuts_fields [simp]:
  "solutionsSet (flushIntegerCuts env s) = solutionsSet s"
  "tmpVals (flushIntegerCuts env s) = tmpVals s"
  "lastUpdatedPrimal (flushIntegerCuts env s) = lastUpdatedPrimal s"
  "dualBound (flushIntegerCuts env s) = dualBound s"
  "dualSolutionCandidates (flushIntegerCuts env s) = dualSolutionCandidates s"
  "primalBound (flushIntegerCuts env s) = primalBound s"
  "primalSolutionCandidates (flushIntegerCuts env s) = primalSolutionCandidates s"
  by (simp_all add: flushIntegerCuts_def Let_def)

lemma recordIterationStatistics_fields [simp]:
  "solutionsSet (recordIterationStatistics ev s) = solutionsSet s"
  "tmpVals (recordIterationStatistics ev s) = tmpVals s"
  "lastUpdatedPrimal (recordIterationStatistics ev s) = lastUpdatedPrimal s"
  "dualBound (recordIterationStatistics ev s) = dualBound s"
  "dualSolutionCandidates (recordIterationStatistics ev s) = dualSolutionCandidates s"
  "primalBound (recordIterationStatistics ev s) = primalBound s"
  "primalSolutionCandidates (recordIterationStatistics ev s) = primalSolutionCandidates s"
  by (simp_all add: recordIterationStatistics_def)

lemma primalSearches_fields [simp]:
  "solutionsSet (primalSearches env c s) = solutionsSet s"
  "tmpVals (primalSearches env c s) = tmpVals s"
  "lastUpdatedPrimal (primalSearches env c s) = lastUpdatedPrimal s"
  "dualBound (primalSearches env c s) = dualBound s"
  "dualSolutionCandidates (primalSearches env c s) = dualSolutionCandidates s"
  by (simp_all add: primalSearches_def Let_def)

lemma closeIteration_fields [simp]:
  "solutionsSet (closeIteration env c s) = solutionsSet s"
  "tmpVals (closeIteration env c s) = tmpVals s"
  "lastUpdatedPrimal (closeIteration env c s) = lastUpdatedPrimal s"
  "dualBound (closeIteration env c s) = dualBound s"
  "dualSolutionCandidates (closeIteration env c s) = dualSolutionCandidates s"
  "primalBound (closeIteration env c s) = primalBound s"
  "primalSolutionCandidates (closeIteration env c s) = primalSolutionCandidates s"
  by (simp_all add: closeIteration_def Let_def)

lemma integerSolutionCuts_fields [simp]:
  "solutionsSet (integerSolutionCuts env ev s) = solutionsSet s"
  "tmpVals (integerSolutionCuts env ev s) = tmpVals s"
  "lastUpdatedPrimal (integerSolutionCuts env ev s) = lastUpdatedPrimal s"
  "dualBound (integerSolutionCuts env ev s) = dualBound s"
  "dualSolutionCandidates (integerSolutionCuts env ev s) = dualSolutionCandidates s"
  by (simp_all add: integerSolutionCuts_def)

lemma openIteration_fields [simp]:
  "solutionsSet (openIteration s) = solutionsSet s"
  "tmpVals (openIteration s) = tmpVals s"
  "lastUpdatedPrimal (openIteration s) = lastUpdatedPrimal s"
  "dualBound (openIteration s) = dualBound s"
  "dualSolutionCandidates (openIteration s) = dualSolutionCandidates s"
  "primalBound (openIteration s) = primalBound s"
  "primalSolutionCandidates (openIteration s) = primalSolutionCandidates s"
  "lazyConstraints (openIteration s) = lazyConstraints s"
  "hyperplaneWaitingList (openIteration s) = hyperplaneWaitingList s"
  "taskLog (openIteration s) = taskLog s"
  by (simp_all add: openIteration_def)

lemma cbIntegerSolution_fields [simp]:
  "solutionsSet (eitherState (cbIntegerSolution env ev s)) = solutionsSet s"
  "tmpVals (eitherState (cbIntegerSolution env ev s)) = tmpVals s"
  "lastUpdatedPrimal (eitherState (cbIntegerSolution env ev s)) = lastUpdatedPrimal s"
  "dualBound (eitherState (cbIntegerSolution env ev s)) = dualBound s"
  "dualSolutionCandidates (eitherState (cbIntegerSolution env ev s)) = dualSolutionCandidates s"
  by (simp_all add: cbIntegerSolution_def eitherState_def)

lemma cbNodeCounts_fields [simp]:
  "solutionsSet (cbNodeCounts ev s) = solutionsSet s"
  "tmpVals (cbNodeCounts ev s) = tmpVals s"
  "lastUpdatedPrimal (cbNodeCounts ev s) = lastUpdatedPrimal s"
  "dualBound (cbNodeCounts ev s) = dualBound s"
  "dualSolutionCandidates (cbNodeCounts ev s) = dualSolutionCandidates s"
  "primalBound (cbNodeCounts ev s) = primalBound s"
  "primalSolutionCandidates (cbNodeCounts ev s) = primalSolutionCandidates s"
  "lazyConstraints (cbNodeCounts ev s) = lazyConstraints s"
  "hyperplaneWaitingList (cbNodeCounts ev s) = hyperplaneWaitingList s"
  "taskLog (cbNodeCounts ev s) = taskLog s"
  "currIter (cbNodeCounts ev s) = currIter s"
  by (simp_all add: cbNodeCounts_def)

lemma cbIncumbentAndCutoff_fields [simp]:
  "dualBound (cbIncumbentAndCutoff env ev s) = dualBound s"
  "dualSolutionCandidates (cbIncumbentAndCutoff env ev s) = dualSolutionCandidates s"
  "primalBound (cbIncumbentAndCutoff env ev s) = primalBound s"
  "primalSolutionCandidates (cbIncumbentAndCutoff env ev s) = primalSolutionCandidates s"
  "lazyConstraints (cbIncumbentAndCutoff env ev s) = lazyConstraints s"
  "hyperplaneWaitingList (cbIncumbentAndCutoff env ev s) = hyperplaneWaitingList s"
  "taskLog (cbIncumbentAndCutoff env ev s) = taskLog s"
  "currIter (cbIncumbentAndCutoff env ev s) = currIter s"
  by (simp_all add: cbIncumbentAndCutoff_def cbIncumbent_def cbCutoff_def Let_def)

lemma cbIncumbentAndCutoff_maximization:
  "\<not> isMinimization env \<Longrightarrow>
     solutionsSet (cbIncumbentAndCutoff env ev s) = solutionsSet s
     \<and> tmpVals (cbIncumbentAndCutoff env ev s) = tmpVals s
     \<and> lastUpdatedPrimal (cbIncumbentAndCutoff env ev s) = lastUpdatedPrimal s"
  by (simp add: cbIncumbentAndCutoff_def cbIncumbent_def cbCutoff_def Let_def dgt_def dlt_irrefl)

text \<open>
  Claim C9. For a maximisation problem no invocation of the callback, in particular none
  for an integer-feasible solution, calls \<^verbatim>\<open>setSolution\<close>: the guard of the block
  compares the primal bound with itself and is false, so the calls made so far, the
  values collected in \<^verbatim>\<open>tmpVals\<close> and \<^verbatim>\<open>lastUpdatedPrimal\<close> stay as they are.
\<close>

theorem callback_maximization_never_sets_solution:
  assumes "\<not> isMinimization env"
  shows "solutionsSet (callback env ev s) = solutionsSet s
       \<and> tmpVals (callback env ev s) = tmpVals s
       \<and> lastUpdatedPrimal (callback env ev s) = lastUpdatedPrimal s"
proof (cases "cbIntegerSolution env ev
                   (cbRelaxationNode env ev (cbPrimalSolution env ev (cbDualBound env ev s)))")
  case (Inl s4)
  with cbIntegerSolution_fields(1-3)[of env ev
      "cbRelaxationNode env ev (cbPrimalSolution env ev (cbDualBound env ev s))"]
  show ?thesis
    by (simp add: callback_def eitherState_def)
next
  case (Inr s4)
  with cbIntegerSolution_fields(1-3)[of env ev
      "cbRelaxationNode env ev (cbPrimalSolution env ev (cbDualBound env ev s))"]
    cbIncumbentAndCutoff_maximization[OF assms, of ev "cbNodeCounts ev s4"]
  show ?thesis
    by (simp add: callback_def eitherState_def)
qed

text \<open>
  The theorem at a concrete input: a maximisation and an integer-feasible solution that
  violates the constraint, so that the whole branch is executed.
\<close>

theorem callback_maximization_never_sets_solution_witness:
  "\<not> isMinimization (exCallbackEnv\<lparr>isMinimization := False\<rparr>)
   \<and> solutionsSet (callback (exCallbackEnv\<lparr>isMinimization := False\<rparr>)
        (exEvent GRB_CB_MIPSOL (Finite 5) (Finite 8) (Finite 1)) exCallbackState) = []"
proof -
  have h: "\<not> isMinimization (exCallbackEnv\<lparr>isMinimization := False\<rparr>)" by simp
  have e: "solutionsSet exCallbackState = []" by (simp add: exCallbackState_def)
  from callback_maximization_never_sets_solution[OF h] h e show ?thesis by simp
qed

section \<open>Properties of the callback\<close>

lemma cbRelaxationNode_other:
  "cbWhere ev \<noteq> GRB_CB_MIPNODE \<Longrightarrow> cbRelaxationNode env ev s = s"
  by (simp add: cbRelaxationNode_def)

lemma cbPrimalSolution_other:
  "cbWhere ev \<noteq> GRB_CB_MIPSOL \<Longrightarrow> cbPrimalSolution env ev s = s"
  by (simp add: cbPrimalSolution_def)

lemma cbIntegerSolution_other:
  "cbWhere ev \<noteq> GRB_CB_MIPSOL \<Longrightarrow> cbIntegerSolution env ev s = Inr s"
  by (simp add: cbIntegerSolution_def)

lemma cbNodeCounts_other:
  "cbWhere ev \<noteq> GRB_CB_MIP \<Longrightarrow> cbNodeCounts ev s = s"
  by (simp add: cbNodeCounts_def)

lemma cbIncumbentAndCutoff_other:
  "cbWhere ev \<noteq> GRB_CB_MIPSOL \<Longrightarrow> cbIncumbentAndCutoff env ev s = s"
  by (simp add: cbIncumbentAndCutoff_def)

text \<open>
  Claim C2. On an event for an integer-feasible solution, if there are nonlinear
  constraints and the maximum deviation of the candidate is within the constraint
  tolerance, the callback adds no lazy constraint, pushes no hyperplane onto the waiting
  list and runs no task: the point is accepted as it is.
\<close>

theorem callback_within_tolerance_no_cuts:
  assumes "cbWhere ev = GRB_CB_MIPSOL"
    and "reformulatedNumberOfNonlinearConstraints env > 0"
    and "dle (pairValue (reformulatedMaxNumericConstraintValue env (mipSolution ev)))
             (constraintTolerance env)"
  shows "lazyConstraints (callback env ev s) = lazyConstraints s
       \<and> hyperplaneWaitingList (callback env ev s) = hyperplaneWaitingList s
       \<and> taskLog (callback env ev s) = taskLog s"
  using assms
  by (simp add: callback_def cbRelaxationNode_other cbIntegerSolution_def)

text \<open>The theorem at the scenario of the specification: deviation 0.0005, tolerance 0.001.\<close>

theorem callback_within_tolerance_no_cuts_witness:
  "dle (pairValue (reformulatedMaxNumericConstraintValue exCallbackEnv
          (mipSolution (exEvent GRB_CB_MIPSOL (Finite 5) (Finite 8) (Finite (5 / 10000))))))
       (Finite (1 / 1000))
   \<and> lazyConstraints (callback exCallbackEnv
         (exEvent GRB_CB_MIPSOL (Finite 5) (Finite 8) (Finite (5 / 10000))) exCallbackState) = []
   \<and> hyperplaneWaitingList (callback exCallbackEnv
         (exEvent GRB_CB_MIPSOL (Finite 5) (Finite 8) (Finite (5 / 10000))) exCallbackState) = []
   \<and> taskLog (callback exCallbackEnv
         (exEvent GRB_CB_MIPSOL (Finite 5) (Finite 8) (Finite (5 / 10000))) exCallbackState) = []"
proof -
  have w: "cbWhere (exEvent GRB_CB_MIPSOL (Finite 5) (Finite 8) (Finite (5 / 10000))) = GRB_CB_MIPSOL"
    by (simp add: exEvent_def)
  have n: "reformulatedNumberOfNonlinearConstraints exCallbackEnv > 0"
    by (simp add: exCallbackEnv_def)
  have d: "dle (pairValue (reformulatedMaxNumericConstraintValue exCallbackEnv
          (mipSolution (exEvent GRB_CB_MIPSOL (Finite 5) (Finite 8) (Finite (5 / 10000))))))
       (constraintTolerance exCallbackEnv)"
    by (simp add: exCallbackEnv_def exEvent_def exMaxDev_def dle_def)
  from callback_within_tolerance_no_cuts[OF w n d, of exCallbackState] d
  show ?thesis
    by (simp add: exCallbackState_def exCallbackEnv_def)
qed

lemma relaxationSolutionPoint_cbDualBound:
  "relaxationSolutionPoint env ev (cbDualBound env ev s) = relaxationSolutionPoint env ev s"
  by (simp add: relaxationSolutionPoint_def)

lemma callback_MIPNODE:
  assumes "cbWhere ev = GRB_CB_MIPNODE"
    and "\<not> gapToleranceMet env (cbDualBound env ev s)"
    and "\<not> checkIterationLimit env (cbDualBound env ev s)"
  shows "callback env ev s = cbRelaxationNode env ev (cbDualBound env ev s)"
  using assms
  by (simp add: callback_def cbPrimalSolution_other cbIntegerSolution_other cbNodeCounts_other
      cbIncumbentAndCutoff_other)

text \<open>
  Claim C5, as the code has it. On an event for a node whose relaxation is optimal, and
  unless the callback aborts the search before (gap tolerance met or iteration limit
  reached), the point selector is run on the relaxation point if and only if the count of
  relaxation cuts of the current iteration is below the cap. The hyperplanes it selects
  are pushed onto the waiting list and added to the count; no lazy constraint is added to
  the search in this invocation.
\<close>

theorem callback_relaxation_node_enqueues:
  assumes "cbWhere ev = GRB_CB_MIPNODE"
    and "mipnodeStatus ev = GRB_OPTIMAL"
    and "\<not> gapToleranceMet env (cbDualBound env ev s)"
    and "\<not> checkIterationLimit env (cbDualBound env ev s)"
  shows "lazyConstraints (callback env ev s) = lazyConstraints s
       \<and> (relaxedLazyHyperplanesAdded (currIter s) < relaxationMaxLazyConstraints env \<longrightarrow>
            taskLog (callback env ev s) =
              taskLog s @ [if cutStrategyIsESH env
                           then SelectHyperplanePointsESH [relaxationSolutionPoint env ev s]
                           else SelectHyperplanePointsECP [relaxationSolutionPoint env ev s]]
            \<and> hyperplaneWaitingList (callback env ev s) =
                hyperplaneWaitingList s
                @ selectHyperplanePoints env (cbDualBound env ev s) [relaxationSolutionPoint env ev s]
            \<and> relaxedLazyHyperplanesAdded (currIter (callback env ev s)) =
                relaxedLazyHyperplanesAdded (currIter s)
                + int (length (selectHyperplanePoints env (cbDualBound env ev s)
                                 [relaxationSolutionPoint env ev s])))
       \<and> (\<not> relaxedLazyHyperplanesAdded (currIter s) < relaxationMaxLazyConstraints env \<longrightarrow>
            taskLog (callback env ev s) = taskLog s
            \<and> hyperplaneWaitingList (callback env ev s) = hyperplaneWaitingList s
            \<and> currIter (callback env ev s) = currIter s)"
  unfolding callback_MIPNODE[OF assms(1,3,4)]
  using assms(1,2)
  by (simp add: cbRelaxationNode_def Let_def runSelectHyperplanePoints_def
      relaxationSolutionPoint_cbDualBound)

lemma exEvent_MIPNODE_callback:
  "callback exCallbackEnv (exEvent GRB_CB_MIPNODE (Finite 5) (Finite 8) (Finite 1)) exCallbackState
   = cbRelaxationNode exCallbackEnv (exEvent GRB_CB_MIPNODE (Finite 5) (Finite 8) (Finite 1))
       (cbDualBound exCallbackEnv (exEvent GRB_CB_MIPNODE (Finite 5) (Finite 8) (Finite 1))
          exCallbackState)"
  by (rule callback_MIPNODE)
     (simp_all add: exEvent_def exCallbackEnv_def gapToleranceMet_def)

text \<open>The theorem at a concrete input, with the count 0 below the cap 5.\<close>

theorem callback_relaxation_node_enqueues_witness:
  "relaxedLazyHyperplanesAdded (currIter exCallbackState) < relaxationMaxLazyConstraints exCallbackEnv
   \<and> lazyConstraints (callback exCallbackEnv
        (exEvent GRB_CB_MIPNODE (Finite 5) (Finite 8) (Finite 1)) exCallbackState) = []
   \<and> taskLog (callback exCallbackEnv
        (exEvent GRB_CB_MIPNODE (Finite 5) (Finite 8) (Finite 1)) exCallbackState)
       = [SelectHyperplanePointsECP [relaxationSolutionPoint exCallbackEnv
            (exEvent GRB_CB_MIPNODE (Finite 5) (Finite 8) (Finite 1)) exCallbackState]]
   \<and> relaxedLazyHyperplanesAdded (currIter (callback exCallbackEnv
        (exEvent GRB_CB_MIPNODE (Finite 5) (Finite 8) (Finite 1)) exCallbackState)) = 1"
proof -
  have w: "cbWhere (exEvent GRB_CB_MIPNODE (Finite 5) (Finite 8) (Finite 1)) = GRB_CB_MIPNODE"
    by (simp add: exEvent_def)
  have o: "mipnodeStatus (exEvent GRB_CB_MIPNODE (Finite 5) (Finite 8) (Finite 1)) = GRB_OPTIMAL"
    by (simp add: exEvent_def GRB_OPTIMAL_def)
  have g: "\<not> gapToleranceMet exCallbackEnv
      (cbDualBound exCallbackEnv (exEvent GRB_CB_MIPNODE (Finite 5) (Finite 8) (Finite 1)) exCallbackState)"
    by (simp add: gapToleranceMet_def exCallbackEnv_def)
  have l: "\<not> checkIterationLimit exCallbackEnv
      (cbDualBound exCallbackEnv (exEvent GRB_CB_MIPNODE (Finite 5) (Finite 8) (Finite 1)) exCallbackState)"
    by (simp add: exCallbackEnv_def)
  have c: "relaxedLazyHyperplanesAdded (currIter exCallbackState)
             < relaxationMaxLazyConstraints exCallbackEnv"
    by (simp add: exCallbackEnv_def exCallbackState_def exIteration_def)
  from callback_relaxation_node_enqueues[OF w o g l] c
  show ?thesis
    by (simp add: exCallbackState_def exCallbackEnv_def exIteration_def exSelect_def)
qed

text \<open>
  Claim C5 as stated fails: the count is below the cap and the selector yields a
  hyperplane, which is on the waiting list when the callback returns; no cut has been
  added to the search.
\<close>

theorem callback_relaxation_node_counterexample:
  "cbWhere (exEvent GRB_CB_MIPNODE (Finite 5) (Finite 8) (Finite 1)) = GRB_CB_MIPNODE
   \<and> mipnodeStatus (exEvent GRB_CB_MIPNODE (Finite 5) (Finite 8) (Finite 1)) = GRB_OPTIMAL
   \<and> relaxedLazyHyperplanesAdded (currIter exCallbackState)
       < relaxationMaxLazyConstraints exCallbackEnv
   \<and> hyperplaneWaitingList (callback exCallbackEnv
        (exEvent GRB_CB_MIPNODE (Finite 5) (Finite 8) (Finite 1)) exCallbackState)
       = [\<lparr> sourceConstraintIndex = 0, generatedPoint = [Finite 1],
            source = LPRelaxedSolutionPoint \<rparr>]
   \<and> lazyConstraints (callback exCallbackEnv
        (exEvent GRB_CB_MIPNODE (Finite 5) (Finite 8) (Finite 1)) exCallbackState) = []"
  unfolding exEvent_MIPNODE_callback
  by (simp add: exEvent_def GRB_OPTIMAL_def exCallbackEnv_def exCallbackState_def exIteration_def
      cbRelaxationNode_def cbDualBound_def addDualSolutionCandidate_def Let_def
      runSelectHyperplanePoints_def relaxationSolutionPoint_def exSelect_def exMaxDev_def
      dgt_def dualImproves_def)




































end
